theory Spec2Isabelle
  imports Main "HOL-Library.Word"
begin

section \<open>Notebook chunk execution capture (NotebookExec.cpp, NotebookPlots.cpp)\<close>

text \<open>
  A shallow embedding of \<^verbatim>\<open>ChunkExecContext\<close> (NotebookExec.cpp) and of the plot capture
  session (NotebookPlots.cpp). Every handler is a function on an explicit \<open>world\<close>: the
  fields of the execution context, the slots connected to the boost signals, the
  last-output ledger, the files written through \<^verbatim>\<open>writeStringToFile\<close>, and a trace of the
  external calls and of the signals fired, in program order. A signal of the plot
  session runs the slots connected to it before the call returns. The answers of the
  file system and of R to the fallible calls made while one event is handled are the
  argument \<open>io\<close>.
\<close>

subsection \<open>Values\<close>

text \<open>\<^verbatim>\<open>core::FilePath\<close>, held as its absolute path.\<close>

type_synonym FilePath = string

text \<open>\<^verbatim>\<open>core::Error\<close>: \<^verbatim>\<open>if (error)\<close> is \<open>isError\<close>.\<close>

datatype Error = Success | Failure

fun isError :: "Error \<Rightarrow> bool" where
  "isError Success = False"
| "isError Failure = True"

text \<open>
  Modelled from the spec: \<^verbatim>\<open>OutputPair\<close> is declared in NotebookOutput.hpp, which is absent.
  The spec gives it an ordinal (``monotonically increasing unsigned integer'') and a
  kind; the source uses the fields \<^verbatim>\<open>ordinal\<close> and \<^verbatim>\<open>outputType\<close>. The ordinal type is the
  parameter \<open>'o\<close>; every function below takes it as a machine word \<open>'w word\<close> of any
  width, so that \<^verbatim>\<open>ordinal++\<close> wraps as an unsigned integer does.
\<close>

record 'o OutputPair =
  outputType :: int
  ordinal :: 'o

text \<open>\<^verbatim>\<open>module_context::ConsoleOutputType\<close>.\<close>

datatype ConsoleOutputType = ConsoleOutputNormal | ConsoleOutputError

text \<open>\<^verbatim>\<open>core::FileInfo\<close>, \<^verbatim>\<open>core::system::FileChangeEvent\<close> and \<^verbatim>\<open>tree<FileInfo>\<close>. A tree is a list
  of top-level nodes; its iterator (\<^verbatim>\<open>begin()\<close> to \<^verbatim>\<open>end()\<close>) visits the nodes in pre-order.\<close>

record FileInfo =
  absolutePath :: string
  isDirectory :: bool

datatype FileChangeType = FileAdded | FileModified | FileRemoved

record FileChangeEvent =
  changeType :: FileChangeType
  fileInfo :: FileInfo

datatype 'a tree_node = TreeNode 'a "'a tree_node list"

type_synonym 'a tree = "'a tree_node list"

fun pre_order :: "'a tree_node \<Rightarrow> 'a list" where
  "pre_order (TreeNode a ts) = a # concat (map pre_order ts)"

definition tree_iterate :: "'a tree \<Rightarrow> 'a list" where
  "tree_iterate t = concat (map pre_order t)"

text \<open>\<^verbatim>\<open>core::system::file_monitor::Handle\<close>.\<close>

type_synonym Handle = nat

subsection \<open>Helpers of the repository that are not part of these sources\<close>

text \<open>
  The path layout (\<^verbatim>\<open>chunkOutputPath\<close>, \<^verbatim>\<open>chunkOutputFile\<close> for an output pair,
  \<^verbatim>\<open>chunkCacheFolder\<close>, and \<open>consoleLogPath\<close>, the place of the console log of a chunk), the
  \<^verbatim>\<open>kChunk...\<close> constants, the pure \<^verbatim>\<open>FilePath\<close> and string helpers, the CSV encoder and
  \<^verbatim>\<open>userSettings().contextId()\<close> are declared in files that are absent. They are
  parameters: every theorem holds for all of them. What these helpers do to the ledger is
  not a parameter: it is modelled below.
\<close>

record 'o externals =
  kChunkConsoleInput :: int
  kChunkConsoleOutput :: int
  kChunkConsoleError :: int
  kChunkOutputPlot :: int
  kChunkOutputHtml :: int
  kChunkOutputText :: int
  kChunkLibDir :: string
  chunkOutputPath :: "string \<Rightarrow> string \<Rightarrow> FilePath"
  chunkOutputFile :: "string \<Rightarrow> string \<Rightarrow> 'o OutputPair \<Rightarrow> FilePath"
  consoleLogPath :: "string \<Rightarrow> string \<Rightarrow> int \<Rightarrow> FilePath"
  chunkCacheFolder :: "string \<Rightarrow> string \<Rightarrow> FilePath"
  FilePath_parent :: "FilePath \<Rightarrow> FilePath"
  FilePath_complete :: "FilePath \<Rightarrow> string \<Rightarrow> FilePath"
  FilePath_relativePath :: "FilePath \<Rightarrow> FilePath \<Rightarrow> string"
  FilePath_stem :: "FilePath \<Rightarrow> string"
  FilePath_hasExtensionLowerCase :: "FilePath \<Rightarrow> string \<Rightarrow> bool"
  isPrefixOf :: "string \<Rightarrow> string \<Rightarrow> bool"
  encodeCsvLine :: "string list \<Rightarrow> string"
  numberToString :: "int \<Rightarrow> string"
  contextId :: string

text \<open>
  The answers of the environment to the fallible calls made while one event is handled,
  one field for each call site: \<^verbatim>\<open>outputPath.ensureDirectory()\<close> and \<^verbatim>\<open>beginWidgetCapture\<close> in
  \<^verbatim>\<open>connect\<close>; \<^verbatim>\<open>plotFolder.children\<close> (the error and the entries it delivered),
  \<^verbatim>\<open>file.remove()\<close> for each stale plot, \<^verbatim>\<open>executeString\<close> and \<^verbatim>\<open>dev.off\<close> in NotebookPlots.cpp;
  \<^verbatim>\<open>file.move(target)\<close>, \<^verbatim>\<open>fileLib.exists()\<close>, \<^verbatim>\<open>fileLib.childrenRecursive\<close> (the error and the
  entries visited), \<^verbatim>\<open>path.isDirectory()\<close> and the move or \<^verbatim>\<open>ensureDirectory\<close> of each library
  entry, and \<^verbatim>\<open>fileLib.remove()\<close> in \<^verbatim>\<open>onFileOutput\<close>; \<^verbatim>\<open>writeStringToFile\<close> in
  \<^verbatim>\<open>onConsoleText\<close>.
\<close>

record io =
  io_ensureDirectory :: Error
  io_beginWidgetCapture :: Error
  io_children :: "Error \<times> FilePath list"
  io_remove :: "FilePath \<Rightarrow> Error"
  io_executeString :: Error
  io_devOff :: Error
  io_move :: Error
  io_libExists :: bool
  io_libChildren :: "Error \<times> FilePath list"
  io_libIsDirectory :: "FilePath \<Rightarrow> bool"
  io_libEntry :: "FilePath \<Rightarrow> Error"
  io_libRemove :: Error
  io_write :: Error

subsection \<open>Signals, slots and the trace\<close>

text \<open>
  The signals of \<^verbatim>\<open>module_context::events()\<close> and of the notebook's \<^verbatim>\<open>events()\<close>, and what
  they carry when fired.
\<close>

datatype signal =
    OnConsolePrompt | OnConsoleOutput | OnConsoleInput
  | OnPlotOutput | OnPlotOutputComplete | OnHtmlOutput
  | OnChunkConsoleOutput | OnChunkExecCompleted

datatype event =
    ConsolePrompt string
  | ConsoleOutput ConsoleOutputType string
  | ConsoleInput string
  | PlotOutput FilePath
  | PlotOutputComplete
  | HtmlOutput FilePath
  | ChunkConsoleOutput string string int string
  | ChunkExecCompleted string string string

fun signal_of :: "event \<Rightarrow> signal" where
  "signal_of (ConsolePrompt _) = OnConsolePrompt"
| "signal_of (ConsoleOutput _ _) = OnConsoleOutput"
| "signal_of (ConsoleInput _) = OnConsoleInput"
| "signal_of (PlotOutput _) = OnPlotOutput"
| "signal_of PlotOutputComplete = OnPlotOutputComplete"
| "signal_of (HtmlOutput _) = OnHtmlOutput"
| "signal_of (ChunkConsoleOutput _ _ _ _) = OnChunkConsoleOutput"
| "signal_of (ChunkExecCompleted _ _ _) = OnChunkExecCompleted"

text \<open>
  A slot is a bound callback as the source writes it: \<^verbatim>\<open>boost::bind(f, a1, ...)\<close> is
  \<open>Bind f [a1, ...]\<close>, with \<^verbatim>\<open>this\<close>, the placeholders \<^verbatim>\<open>_1\<close> and \<^verbatim>\<open>_2\<close>, and bound values.
  \<^verbatim>\<open>signal.disconnect(slot)\<close> removes the connected slots equal to the one given, and two
  bound callbacks are equal when they bind the same function to the same arguments.
\<close>

datatype callee =
    Ctx_onConsolePrompt | Ctx_onConsoleOutput | Ctx_onConsoleInput
  | Ctx_onFileOutput | Ctx_onPlotOutputComplete | Plots_unregisterMonitor

datatype bound = BoundThis | Arg1 | Arg2 | BoundInt int | BoundHandle Handle

datatype slot = Bind callee "bound list"

text \<open>
  The trace: the external calls (logging, file system, R, file monitor, output queue,
  ledger update) and the signals fired, in the order the program makes them.
\<close>

datatype 'o effect =
    LogError
  | EnsureDirectory FilePath
  | Move FilePath FilePath
  | Remove FilePath
  | Children FilePath
  | ChildrenRecursive FilePath
  | WriteStringToFile FilePath string bool
  | RCall string
  | ExecuteString string
  | RegisterMonitor FilePath bool
  | FileMonitorUnregister Handle
  | BeginWidgetCapture FilePath FilePath
  | EnqueueChunkOutput string string int FilePath
  | UpdateLastChunkOutput string string "'o OutputPair"
  | Fire event

subsection \<open>The world\<close>

text \<open>
  The members \<^verbatim>\<open>docId_\<close>, \<^verbatim>\<open>chunkId_\<close>, \<^verbatim>\<open>consoleConnected_\<close> and \<^verbatim>\<open>plotsConnected_\<close> of the class
  (a name cannot end in an underscore here, so they carry the prefix \<open>ctx_\<close>). The world
  holds one execution context, the \<^verbatim>\<open>this\<close> of the bound callbacks.
\<close>

record ChunkExecContext =
  ctx_docId :: string
  ctx_chunkId :: string
  ctx_consoleConnected :: bool
  ctx_plotsConnected :: bool

record 'o world =
  ctx :: ChunkExecContext
  connections :: "(signal \<times> slot) list"
  lastOutputs :: "string \<times> string \<Rightarrow> 'o OutputPair"
  files :: "FilePath \<Rightarrow> string option"
  trace :: "'o effect list"

definition record_effect :: "'o effect \<Rightarrow> 'o world \<Rightarrow> 'o world" where
  "record_effect e w = w\<lparr>trace := trace w @ [e]\<rparr>"

definition LOG_ERROR :: "'o world \<Rightarrow> 'o world" where
  "LOG_ERROR w = record_effect LogError w"

text \<open>
  Calling \<^verbatim>\<open>events().onChunkConsoleOutput\<close> or \<^verbatim>\<open>events().onChunkExecCompleted\<close>. The slots of
  these two signals are the listeners of the client, connected in files that are absent;
  no callback of these sources is ever connected to them. The call is recorded in the
  trace and runs nothing here.
\<close>

definition notify :: "event \<Rightarrow> 'o world \<Rightarrow> 'o world" where
  "notify ev w = record_effect (Fire ev) w"

definition connect_slot :: "signal \<Rightarrow> slot \<Rightarrow> 'o world \<Rightarrow> 'o world" where
  "connect_slot sg s w = w\<lparr>connections := connections w @ [(sg, s)]\<rparr>"

definition disconnect_slot :: "signal \<Rightarrow> slot \<Rightarrow> 'o world \<Rightarrow> 'o world" where
  "disconnect_slot sg s w = w\<lparr>connections := removeAll (sg, s) (connections w)\<rparr>"

text \<open>
  Modelled from the spec: the Output Ledger (\<^verbatim>\<open>lastChunkOutput\<close>, \<^verbatim>\<open>updateLastChunkOutput\<close>
  and \<^verbatim>\<open>enqueueChunkOutput\<close> of NotebookOutput.cpp and NotebookQueue.cpp are absent). It
  ``maintains, per chunk, the last-assigned output ordinal/type pair'': a read returns the
  pair stored for the (document, chunk), an update stores it. The update and the
  enqueued output are also written to the trace.
\<close>

definition lastChunkOutput :: "string \<Rightarrow> string \<Rightarrow> 'o world \<Rightarrow> 'o OutputPair" where
  "lastChunkOutput docId chunkId w = lastOutputs w (docId, chunkId)"

definition updateLastChunkOutput ::
  "string \<Rightarrow> string \<Rightarrow> 'o OutputPair \<Rightarrow> 'o world \<Rightarrow> 'o world" where
  "updateLastChunkOutput docId chunkId pair w =
     record_effect (UpdateLastChunkOutput docId chunkId pair)
       (w\<lparr>lastOutputs := (lastOutputs w)((docId, chunkId) := pair)\<rparr>)"

definition enqueueChunkOutput ::
  "string \<Rightarrow> string \<Rightarrow> int \<Rightarrow> FilePath \<Rightarrow> 'o world \<Rightarrow> 'o world" where
  "enqueueChunkOutput docId chunkId ty target w =
     record_effect (EnqueueChunkOutput docId chunkId ty target) w"

text \<open>
  Modelled from the spec: the overload \<^verbatim>\<open>chunkOutputFile(docId, chunkId, outputType)\<close> of
  NotebookOutput.cpp is absent; \<^verbatim>\<open>onConsoleText\<close> calls it for the console log. The spec
  gives every kind of output, console text included, the next ordinal of the chunk
  (``\<open>ordinal\<close> is strictly increasing across all kinds interleaved'', and the scenario
  with a console line, a plot and a console error line), through the ledger's
  \<^verbatim>\<open>assignNext\<close>, a ``read-increment-write of the chunk's last-used ordinal'', and it keeps
  ``one append-only console-text log'' for the chunk. So the overload reads the last
  pair, increments its ordinal, sets its type, stores it, and returns the path of the
  console log.
\<close>

definition chunkOutputFileOfType ::
  "('w::len) word externals \<Rightarrow> string \<Rightarrow> string \<Rightarrow> int \<Rightarrow> 'w word world \<Rightarrow>
   FilePath \<times> 'w word world" where
  "chunkOutputFileOfType x docId chunkId ty w =
     (let pair0 = lastChunkOutput docId chunkId w;
          pair = pair0\<lparr>ordinal := ordinal pair0 + 1, outputType := ty\<rparr>
      in (consoleLogPath x docId chunkId ty, updateLastChunkOutput docId chunkId pair w))"

text \<open>
  Modelled from the spec: \<^verbatim>\<open>core::writeStringToFile\<close> (FileSerializer.cpp) is absent. The
  spec's \<^verbatim>\<open>appendText\<close> is ``append (or truncate-then-write ...) a line-record to the
  chunk's console log'': with \<open>truncate\<close> the file becomes the string written, without it
  the string is added at the end of what the file holds (nothing, when the file does not
  exist yet). A write that reports an error leaves the file as it was.
\<close>

definition fileContents :: "'o world \<Rightarrow> FilePath \<Rightarrow> string" where
  "fileContents w path = (case files w path of None \<Rightarrow> [] | Some s \<Rightarrow> s)"

definition writeStringToFile ::
  "io \<Rightarrow> FilePath \<Rightarrow> string \<Rightarrow> bool \<Rightarrow> 'o world \<Rightarrow> Error \<times> 'o world" where
  "writeStringToFile env path str truncateFile w =
     (let w1 = record_effect (WriteStringToFile path str truncateFile) w
      in if isError (io_write env) then (io_write env, w1)
         else (Success,
               w1\<lparr>files := (files w1)(path \<mapsto>
                      (if truncateFile then str else fileContents w path @ str))\<rparr>))"

subsection \<open>NotebookExec.cpp: the execution context\<close>

definition newChunkExecContext :: "string \<Rightarrow> string \<Rightarrow> ChunkExecContext" where
  "newChunkExecContext docId chunkId =
     \<lparr>ctx_docId = docId, ctx_chunkId = chunkId, ctx_consoleConnected = False, ctx_plotsConnected = False\<rparr>"

definition consoleConnected :: "'o world \<Rightarrow> bool" where
  "consoleConnected w = ctx_consoleConnected (ctx w)"

text \<open>The bound callbacks that \<^verbatim>\<open>connect\<close> attaches.\<close>

definition slot_onConsolePrompt :: slot where
  "slot_onConsolePrompt = Bind Ctx_onConsolePrompt [BoundThis, Arg1]"

definition slot_onConsoleOutput :: slot where
  "slot_onConsoleOutput = Bind Ctx_onConsoleOutput [BoundThis, Arg1, Arg2]"

definition slot_onConsoleInput :: slot where
  "slot_onConsoleInput = Bind Ctx_onConsoleInput [BoundThis, Arg1]"

definition slot_onFileOutput :: "int \<Rightarrow> slot" where
  "slot_onFileOutput ty = Bind Ctx_onFileOutput [BoundThis, Arg1, BoundInt ty]"

definition slot_onPlotOutputComplete :: slot where
  "slot_onPlotOutputComplete = Bind Ctx_onPlotOutputComplete [BoundThis]"

text \<open>
  \<^verbatim>\<open>moveLibFile\<close>, the callback of \<^verbatim>\<open>childrenRecursive\<close>: it always returns true, so every
  entry is visited. \<open>pPaths\<close> is the vector the caller passes in.
\<close>

definition moveLibFile ::
  "('w::len) word externals \<Rightarrow> io \<Rightarrow> FilePath \<Rightarrow> FilePath \<Rightarrow> FilePath \<Rightarrow>
   FilePath list \<times> 'w word world \<Rightarrow> FilePath list \<times> 'w word world" where
  "moveLibFile x env from to path st =
     (let pPaths = fst st; w = snd st;
          relativePath = FilePath_relativePath x path from;
          target = FilePath_complete x to relativePath;
          pPaths1 = pPaths @ [path];
          w1 = (if io_libIsDirectory env path
                then record_effect (EnsureDirectory target) w
                else record_effect (Move path target) w);
          w2 = (if isError (io_libEntry env path) then LOG_ERROR w1 else w1)
      in (pPaths1, w2))"

definition onFileOutput ::
  "('w::len) word externals \<Rightarrow> io \<Rightarrow> FilePath \<Rightarrow> int \<Rightarrow> 'w word world \<Rightarrow> 'w word world" where
  "onFileOutput x env file ty w =
     (let docId = ctx_docId (ctx w); chunkId = ctx_chunkId (ctx w);
          pair0 = lastChunkOutput docId chunkId w;
          pair1 = pair0\<lparr>ordinal := ordinal pair0 + 1\<rparr>;
          pair = pair1\<lparr>outputType := ty\<rparr>;
          target = chunkOutputFile x docId chunkId pair;
          w1 = record_effect (Move file target) w
      in if isError (io_move env) then LOG_ERROR w1
         else
           (let fileLib = FilePath_complete x (FilePath_parent x file) (kChunkLibDir x);
                w2 = (if io_libExists env then
                        (let w3 = record_effect (ChildrenRecursive fileLib) w1;
                             libTarget = FilePath_complete x (chunkCacheFolder x docId chunkId)
                                           (kChunkLibDir x);
                             w4 = snd (fold (moveLibFile x env fileLib libTarget)
                                         (snd (io_libChildren env)) ([], w3));
                             w5 = (if isError (fst (io_libChildren env)) then LOG_ERROR w4 else w4);
                             w6 = record_effect (Remove fileLib) w5
                         in if isError (io_libRemove env) then LOG_ERROR w6 else w6)
                      else w1);
                w7 = enqueueChunkOutput docId chunkId ty target w2
            in updateLastChunkOutput docId chunkId pair w7))"

definition onConsoleText ::
  "('w::len) word externals \<Rightarrow> io \<Rightarrow> int \<Rightarrow> string \<Rightarrow> bool \<Rightarrow> 'w word world \<Rightarrow> 'w word world" where
  "onConsoleText x env ty output truncateFile w =
     (if output = [] then w
      else
        (let docId = ctx_docId (ctx w); chunkId = ctx_chunkId (ctx w);
             located = chunkOutputFileOfType x docId chunkId (kChunkOutputText x) w;
             outputCsv = fst located;
             vals = [numberToString x ty, output];
             res = writeStringToFile env outputCsv (encodeCsvLine x vals @ [CHR 0x0A])
                     truncateFile (snd located);
             w1 = (if isError (fst res) then LOG_ERROR (snd res) else snd res)
         in notify (ChunkConsoleOutput docId chunkId ty output) w1))"

definition onConsoleOutput ::
  "('w::len) word externals \<Rightarrow> io \<Rightarrow> ConsoleOutputType \<Rightarrow> string \<Rightarrow> 'w word world \<Rightarrow> 'w word world" where
  "onConsoleOutput x env ty output w =
     (if ty = ConsoleOutputNormal
      then onConsoleText x env (kChunkConsoleOutput x) output False w
      else onConsoleText x env (kChunkConsoleError x) output False w)"

definition onConsoleInput ::
  "('w::len) word externals \<Rightarrow> io \<Rightarrow> string \<Rightarrow> 'w word world \<Rightarrow> 'w word world" where
  "onConsoleInput x env input w = onConsoleText x env (kChunkConsoleInput x) input False w"

definition onPlotOutputComplete :: "'o externals \<Rightarrow> 'o world \<Rightarrow> 'o world" where
  "onPlotOutputComplete x w =
     (let w1 = disconnect_slot OnPlotOutput (slot_onFileOutput (kChunkOutputPlot x)) w;
          w2 = disconnect_slot OnPlotOutputComplete slot_onPlotOutputComplete w1;
          w3 = w2\<lparr>ctx := (ctx w2)\<lparr>ctx_plotsConnected := False\<rparr>\<rparr>
      in if ctx_consoleConnected (ctx w3) then w3
         else notify (ChunkExecCompleted (ctx_docId (ctx w3)) (ctx_chunkId (ctx w3)) (contextId x)) w3)"

text \<open>
  \<^verbatim>\<open>disconnect\<close> names the three console callbacks without their placeholders
  (\<^verbatim>\<open>boost::bind(&ChunkExecContext::onConsolePrompt, this)\<close>), and the HTML callback as
  \<^verbatim>\<open>connect\<close> does.
\<close>

definition disconnect :: "'o externals \<Rightarrow> 'o world \<Rightarrow> 'o world" where
  "disconnect x w =
     (let w1 = disconnect_slot OnConsolePrompt (Bind Ctx_onConsolePrompt [BoundThis]) w;
          w2 = disconnect_slot OnConsoleOutput (Bind Ctx_onConsoleOutput [BoundThis]) w1;
          w3 = disconnect_slot OnConsoleInput (Bind Ctx_onConsoleInput [BoundThis]) w2;
          w4 = disconnect_slot OnHtmlOutput (slot_onFileOutput (kChunkOutputHtml x)) w3;
          w5 = (if ctx_plotsConnected (ctx w4) then w4
                else notify (ChunkExecCompleted (ctx_docId (ctx w4)) (ctx_chunkId (ctx w4)) (contextId x)) w4)
      in w5\<lparr>ctx := (ctx w5)\<lparr>ctx_consoleConnected := False\<rparr>\<rparr>)"

definition onConsolePrompt :: "'o externals \<Rightarrow> string \<Rightarrow> 'o world \<Rightarrow> 'o world" where
  "onConsolePrompt x prompt w = (if ctx_consoleConnected (ctx w) then disconnect x w else w)"

subsection \<open>NotebookPlots.cpp: the plot capture session\<close>

definition kPlotPrefix :: string where
  "kPlotPrefix = ''_rs_chunk_plot_''"

definition isPlotPath :: "'o externals \<Rightarrow> FilePath \<Rightarrow> bool" where
  "isPlotPath x path =
     (FilePath_hasExtensionLowerCase x path ''.png'' \<and>
      isPrefixOf x (FilePath_stem x path) kPlotPrefix)"

definition plotFilter :: "'o externals \<Rightarrow> FileInfo \<Rightarrow> bool" where
  "plotFilter x file = (isDirectory file \<or> isPlotPath x (absolutePath file))"

definition slot_unregisterMonitor :: "Handle \<Rightarrow> slot" where
  "slot_unregisterMonitor handle = Bind Plots_unregisterMonitor [Arg1, BoundHandle handle]"

definition unregisterMonitor :: "string \<Rightarrow> Handle \<Rightarrow> 'o world \<Rightarrow> 'o world" where
  "unregisterMonitor prompt handle w =
     (let w1 = disconnect_slot OnConsolePrompt (slot_unregisterMonitor handle) w
      in record_effect (FileMonitorUnregister handle) w1)"

subsection \<open>Delivering an event to the connected slots\<close>

text \<open>
  Calling a slot with the arguments of an event: the placeholders take the event's
  arguments, the bound values are passed as they were bound. A slot whose shape none of
  the handlers has is never connected by this program; calling it does nothing.
\<close>

definition invoke ::
  "('w::len) word externals \<Rightarrow> io \<Rightarrow> slot \<Rightarrow> event \<Rightarrow> 'w word world \<Rightarrow> 'w word world" where
  "invoke x env s ev w =
     (case ev of
        ConsolePrompt prompt \<Rightarrow>
          (if s = slot_onConsolePrompt then onConsolePrompt x prompt w
           else (case s of
                   Bind Plots_unregisterMonitor [Arg1, BoundHandle handle] \<Rightarrow>
                     unregisterMonitor prompt handle w
                 | _ \<Rightarrow> w))
      | ConsoleOutput ty output \<Rightarrow>
          (if s = slot_onConsoleOutput then onConsoleOutput x env ty output w else w)
      | ConsoleInput input \<Rightarrow>
          (if s = slot_onConsoleInput then onConsoleInput x env input w else w)
      | PlotOutput path \<Rightarrow>
          (case s of
             Bind Ctx_onFileOutput [BoundThis, Arg1, BoundInt ty] \<Rightarrow> onFileOutput x env path ty w
           | _ \<Rightarrow> w)
      | PlotOutputComplete \<Rightarrow>
          (if s = slot_onPlotOutputComplete then onPlotOutputComplete x w else w)
      | HtmlOutput path \<Rightarrow>
          (case s of
             Bind Ctx_onFileOutput [BoundThis, Arg1, BoundInt ty] \<Rightarrow> onFileOutput x env path ty w
           | _ \<Rightarrow> w)
      | _ \<Rightarrow> w)"

text \<open>
  Firing a signal calls the slots connected to it, in the order they were connected; a
  slot that an earlier slot of the same firing has disconnected is not called.
\<close>

fun run_slots ::
  "('w::len) word externals \<Rightarrow> io \<Rightarrow> event \<Rightarrow> slot list \<Rightarrow> 'w word world \<Rightarrow> 'w word world" where
  "run_slots x env ev [] w = w"
| "run_slots x env ev (s # ss) w =
     run_slots x env ev ss
       (if (signal_of ev, s) \<in> set (connections w) then invoke x env s ev w else w)"

definition deliver ::
  "('w::len) word externals \<Rightarrow> io \<Rightarrow> event \<Rightarrow> 'w word world \<Rightarrow> 'w word world" where
  "deliver x env ev w =
     run_slots x env ev
       (map snd (filter (\<lambda>c. fst c = signal_of ev) (connections w))) w"

fun deliver_all ::
  "('w::len) word externals \<Rightarrow> (io \<times> event) list \<Rightarrow> 'w word world \<Rightarrow> 'w word world" where
  "deliver_all x [] w = w"
| "deliver_all x (e # es) w = deliver_all x es (deliver x (fst e) (snd e) w)"

subsection \<open>NotebookPlots.cpp: firing the plot signals\<close>

text \<open>
  Calling \<^verbatim>\<open>events().onPlotOutput(path)\<close> or \<^verbatim>\<open>events().onPlotOutputComplete()\<close>: the call is
  recorded and the slots connected to the signal run at once, before the call returns.
  \<open>slot_env ev\<close> gives the answers of the environment while the slots of that call run.
\<close>

definition fire ::
  "('w::len) word externals \<Rightarrow> (event \<Rightarrow> io) \<Rightarrow> event \<Rightarrow> 'w word world \<Rightarrow> 'w word world" where
  "fire x slot_env ev w = deliver x (slot_env ev) ev (record_effect (Fire ev) w)"

definition removeGraphicsDevice ::
  "('w::len) word externals \<Rightarrow> io \<Rightarrow> (event \<Rightarrow> io) \<Rightarrow> FilePath \<Rightarrow> 'w word world \<Rightarrow> 'w word world" where
  "removeGraphicsDevice x env slot_env plotFolder w =
     (let w1 = record_effect (RCall ''dev.off'') w;
          w2 = (if isError (io_devOff env) then LOG_ERROR w1 else w1);
          w3 = record_effect (Children plotFolder) w2;
          folderContents = snd (io_children env);
          w4 = (if isError (fst (io_children env)) then LOG_ERROR w3 else w3);
          w5 = fold (\<lambda>path v. if isPlotPath x path then fire x slot_env (PlotOutput path) v else v)
                 folderContents w4
      in fire x slot_env PlotOutputComplete w5)"

definition onMonitorRegistered ::
  "('w::len) word externals \<Rightarrow> (event \<Rightarrow> io) \<Rightarrow> Handle \<Rightarrow> FileInfo tree \<Rightarrow> 'w word world \<Rightarrow>
   'w word world" where
  "onMonitorRegistered x slot_env handle filesTree w =
     (let w1 = connect_slot OnConsolePrompt (slot_unregisterMonitor handle) w
      in fold (\<lambda>it v. let path = absolutePath it
                        in if isPlotPath x path then fire x slot_env (PlotOutput path) v else v)
           (tree_iterate filesTree) w1)"

definition onMonitorRegError ::
  "('w::len) word externals \<Rightarrow> io \<Rightarrow> (event \<Rightarrow> io) \<Rightarrow> FilePath \<Rightarrow> 'w word world \<Rightarrow> 'w word world" where
  "onMonitorRegError x env slot_env plotFolder w =
     removeGraphicsDevice x env slot_env plotFolder (LOG_ERROR w)"

definition onMonitorUnregistered ::
  "('w::len) word externals \<Rightarrow> io \<Rightarrow> (event \<Rightarrow> io) \<Rightarrow> FilePath \<Rightarrow> Handle \<Rightarrow> 'w word world \<Rightarrow>
   'w word world" where
  "onMonitorUnregistered x env slot_env plotFolder handle w =
     removeGraphicsDevice x env slot_env plotFolder w"

definition onPlotFilesChanged ::
  "('w::len) word externals \<Rightarrow> (event \<Rightarrow> io) \<Rightarrow> FileChangeEvent list \<Rightarrow> 'w word world \<Rightarrow>
   'w word world" where
  "onPlotFilesChanged x slot_env changeEvents w =
     fold (\<lambda>ev v. if changeType ev = FileAdded
                     then fire x slot_env (PlotOutput (absolutePath (fileInfo ev))) v
                     else v)
       changeEvents w"

text \<open>The R code that \<^verbatim>\<open>beginPlotCapture\<close> formats for the folder.\<close>

definition pngDeviceCode :: "FilePath \<Rightarrow> string" where
  \<open>pngDeviceCode plotFolder =
     ''{ require(grDevices, quietly=TRUE);   png(file = "'' @ plotFolder @ ''/'' @ kPlotPrefix @
     ''%03d.png",   width = 7, height = 7,   units="in", res = 96, type = "cairo-png", TRUE)}''\<close>

definition beginPlotCapture ::
  "'o externals \<Rightarrow> io \<Rightarrow> FilePath \<Rightarrow> 'o world \<Rightarrow> Error \<times> 'o world" where
  "beginPlotCapture x env plotFolder w =
     (let w1 = record_effect (Children plotFolder) w;
          folderContents = snd (io_children env)
      in if isError (fst (io_children env)) then (fst (io_children env), w1)
         else
           (let w2 = fold (\<lambda>file v. if isPlotPath x file
                                     then (let v1 = record_effect (Remove file) v
                                           in if isError (io_remove env file)
                                              then LOG_ERROR v1 else v1)
                                     else v)
                      folderContents w1;
                w3 = record_effect (ExecuteString (pngDeviceCode plotFolder)) w2
            in if isError (io_executeString env) then (io_executeString env, w3)
               else (Success, record_effect (RegisterMonitor plotFolder True) w3)))"

subsection \<open>NotebookExec.cpp: connecting\<close>

definition connect :: "'o externals \<Rightarrow> io \<Rightarrow> 'o world \<Rightarrow> 'o world" where
  "connect x env w =
     (let outputPath = chunkOutputPath x (ctx_docId (ctx w)) (ctx_chunkId (ctx w));
          w0 = record_effect (EnsureDirectory outputPath) w
      in if isError (io_ensureDirectory env) then LOG_ERROR w0
         else
           (let w1 = connect_slot OnConsolePrompt slot_onConsolePrompt w0;
                w2 = connect_slot OnConsoleOutput slot_onConsoleOutput w1;
                w3 = connect_slot OnConsoleInput slot_onConsoleInput w2;
                w4 = connect_slot OnPlotOutput (slot_onFileOutput (kChunkOutputPlot x)) w3;
                w5 = connect_slot OnPlotOutputComplete slot_onPlotOutputComplete w4;
                res = beginPlotCapture x env outputPath w5;
                w6 = (if isError (fst res) then LOG_ERROR (snd res)
                      else (snd res)\<lparr>ctx := (ctx (snd res))\<lparr>ctx_plotsConnected := True\<rparr>\<rparr>);
                w7 = connect_slot OnHtmlOutput (slot_onFileOutput (kChunkOutputHtml x)) w6;
                w8 = record_effect
                       (BeginWidgetCapture outputPath
                          (FilePath_complete x (FilePath_parent x outputPath) (kChunkLibDir x))) w7;
                w9 = (if isError (io_beginWidgetCapture env) then LOG_ERROR w8 else w8)
            in w9\<lparr>ctx := (ctx w9)\<lparr>ctx_consoleConnected := True\<rparr>\<rparr>))"

text \<open>What the trace says of the completion signal and of the ledger.\<close>

fun is_completed :: "'o effect \<Rightarrow> bool" where
  "is_completed (Fire (ChunkExecCompleted _ _ _)) = True"
| "is_completed _ = False"

definition completions :: "'o world \<Rightarrow> 'o effect list" where
  "completions w = filter is_completed (trace w)"

definition completion_of :: "'o externals \<Rightarrow> 'o world \<Rightarrow> 'o effect" where
  "completion_of x w =
     Fire (ChunkExecCompleted (ctx_docId (ctx w)) (ctx_chunkId (ctx w)) (contextId x))"


text \<open>
  The context is armed when both flags are set and the two callbacks that end the
  capture are connected, as they are after a \<^verbatim>\<open>connect\<close> in which the directory and the
  plot capture succeeded.
\<close>

definition armed :: "'o world \<Rightarrow> bool" where
  "armed w =
     (ctx_consoleConnected (ctx w) \<and> ctx_plotsConnected (ctx w) \<and>
      (OnConsolePrompt, slot_onConsolePrompt) \<in> set (connections w) \<and>
      (OnPlotOutputComplete, slot_onPlotOutputComplete) \<in> set (connections w))"

fun is_prompt :: "event \<Rightarrow> bool" where
  "is_prompt (ConsolePrompt _) = True"
| "is_prompt _ = False"

fun is_complete :: "event \<Rightarrow> bool" where
  "is_complete PlotOutputComplete = True"
| "is_complete _ = False"

definition has_prompt :: "(io \<times> event) list \<Rightarrow> bool" where
  "has_prompt evs = list_ex (\<lambda>e. is_prompt (snd e)) evs"

definition has_complete :: "(io \<times> event) list \<Rightarrow> bool" where
  "has_complete evs = list_ex (\<lambda>e. is_complete (snd e)) evs"

subsection \<open>Calling the handlers of the context directly\<close>

text \<open>
  The handler that \<^verbatim>\<open>connect\<close> binds to the signal of an event, called with the event's
  arguments: \<^verbatim>\<open>onFileOutput\<close> with \<^verbatim>\<open>kChunkOutputPlot\<close> for a plot and with \<^verbatim>\<open>kChunkOutputHtml\<close>
  for HTML output.
\<close>

definition call_handler ::
  "('w::len) word externals \<Rightarrow> io \<Rightarrow> event \<Rightarrow> 'w word world \<Rightarrow> 'w word world" where
  "call_handler x env ev w =
     (case ev of
        ConsolePrompt prompt \<Rightarrow> onConsolePrompt x prompt w
      | ConsoleOutput ty output \<Rightarrow> onConsoleOutput x env ty output w
      | ConsoleInput input \<Rightarrow> onConsoleInput x env input w
      | PlotOutput path \<Rightarrow> onFileOutput x env path (kChunkOutputPlot x) w
      | PlotOutputComplete \<Rightarrow> onPlotOutputComplete x w
      | HtmlOutput path \<Rightarrow> onFileOutput x env path (kChunkOutputHtml x) w
      | _ \<Rightarrow> w)"

fun call_handlers ::
  "('w::len) word externals \<Rightarrow> (io \<times> event) list \<Rightarrow> 'w word world \<Rightarrow> 'w word world" where
  "call_handlers x [] w = w"
| "call_handlers x (e # es) w = call_handlers x es (call_handler x (fst e) (snd e) w)"



fun is_console :: "event \<Rightarrow> bool" where
  "is_console (ConsoleOutput _ _) = True"
| "is_console (ConsoleInput _) = True"
| "is_console _ = False"

fun console_text :: "event \<Rightarrow> string" where
  "console_text (ConsoleOutput _ output) = output"
| "console_text (ConsoleInput input) = input"
| "console_text _ = []"

fun console_kind :: "'o externals \<Rightarrow> event \<Rightarrow> int" where
  "console_kind x (ConsoleOutput ty _) =
     (if ty = ConsoleOutputNormal then kChunkConsoleOutput x else kChunkConsoleError x)"
| "console_kind x (ConsoleInput _) = kChunkConsoleInput x"
| "console_kind x _ = 0"


text \<open>
  The steps of the capture session in the trace: the calls to R, the listing of the plot
  folder, and the two plot signals.
\<close>

fun capture_step :: "'o effect \<Rightarrow> bool" where
  "capture_step (RCall _) = True"
| "capture_step (Children _) = True"
| "capture_step (Fire (PlotOutput _)) = True"
| "capture_step (Fire PlotOutputComplete) = True"
| "capture_step _ = False"

text \<open>The line-record that \<^verbatim>\<open>onConsoleText\<close> writes for a console event.\<close>

definition console_record :: "'o externals \<Rightarrow> event \<Rightarrow> string" where
  "console_record x ev =
     encodeCsvLine x [numberToString x (console_kind x ev), console_text ev] @ [CHR 0x0A]"

text \<open>A console event with text whose write succeeds.\<close>

definition persisted :: "io \<times> event \<Rightarrow> bool" where
  "persisted e = (is_console (snd e) \<and> 0 < length (console_text (snd e)) \<and> io_write (fst e) = Success)"

definition consoleLog :: "'o externals \<Rightarrow> 'o world \<Rightarrow> FilePath" where
  "consoleLog x w =
     consoleLogPath x (ctx_docId (ctx w)) (ctx_chunkId (ctx w)) (kChunkOutputText x)"

fun write_truncates :: "'o effect \<Rightarrow> bool" where
  "write_truncates (WriteStringToFile _ _ t) = t"
| "write_truncates _ = False"

subsection \<open>A concrete instance\<close>

text \<open>
  One choice of the absent helpers, one execution context (document \<open>d1\<close>, chunk \<open>c1\<close>)
  with an empty ledger entry, and environments in which every call succeeds or one call
  fails. The theorems are instantiated here.
\<close>

definition sample_externals :: "32 word externals" where
  "sample_externals =
     \<lparr>kChunkConsoleInput = 0, kChunkConsoleOutput = 1, kChunkConsoleError = 2,
      kChunkOutputPlot = 2, kChunkOutputHtml = 3, kChunkOutputText = 1,
      kChunkLibDir = ''lib'',
      chunkOutputPath = (\<lambda>d c. ''/cache/'' @ d @ ''/'' @ c),
      chunkOutputFile = (\<lambda>d c p. ''/cache/'' @ d @ ''/'' @ c @ ''/'' @
                           replicate (unat (ordinal p)) (CHR ''i'') @
                           (if outputType p = 2 then ''.png'' else ''.html'')),
      consoleLogPath = (\<lambda>d c t. ''/cache/'' @ d @ ''/'' @ c @ ''/console.csv''),
      chunkCacheFolder = (\<lambda>d c. ''/cache/'' @ d),
      FilePath_parent = (\<lambda>p. rev (drop 1 (dropWhile (\<lambda>ch. ch \<noteq> CHR ''/'') (rev p)))),
      FilePath_complete = (\<lambda>p r. p @ ''/'' @ r),
      FilePath_relativePath = (\<lambda>p from. drop (Suc (length from)) p),
      FilePath_stem = (\<lambda>p. takeWhile (\<lambda>ch. ch \<noteq> CHR ''.'')
                              (rev (takeWhile (\<lambda>ch. ch \<noteq> CHR ''/'') (rev p)))),
      FilePath_hasExtensionLowerCase = (\<lambda>p e. drop (length p - length e) p = e),
      isPrefixOf = (\<lambda>self pre. take (length pre) self = pre),
      encodeCsvLine = (\<lambda>vals. concat (map (\<lambda>v. v @ '','') vals)),
      numberToString = (\<lambda>n. if n = 0 then ''0'' else if n = 1 then ''1''
                             else if n = 2 then ''2'' else ''3''),
      contextId = ''ctx0''\<rparr>"

definition sample_world :: "32 word world" where
  "sample_world =
     \<lparr>ctx = newChunkExecContext ''d1'' ''c1'',
      connections = [],
      lastOutputs = (\<lambda>k. \<lparr>outputType = 0, ordinal = 0\<rparr>),
      files = (\<lambda>p. None),
      trace = []\<rparr>"

definition io_ok :: io where
  "io_ok =
     \<lparr>io_ensureDirectory = Success, io_beginWidgetCapture = Success,
      io_children = (Success, []), io_remove = (\<lambda>p. Success),
      io_executeString = Success, io_devOff = Success, io_move = Success,
      io_libExists = False, io_libChildren = (Success, []),
      io_libIsDirectory = (\<lambda>p. False), io_libEntry = (\<lambda>p. Success),
      io_libRemove = Success, io_write = Success\<rparr>"

definition armed_world :: "32 word world" where
  "armed_world = connect sample_externals io_ok sample_world"

text \<open>The armed context after the console prompt: the console has finished, the plot
  callbacks are still connected.\<close>

definition draining_world :: "32 word world" where
  "draining_world = deliver sample_externals io_ok (ConsolePrompt ''> '') armed_world"

subsection \<open>Auxiliary definitions for the proofs\<close>

text \<open>The pair that \<^verbatim>\<open>onFileOutput\<close> computes for the artifact: the last pair of the chunk with
  \<^verbatim>\<open>ordinal++\<close> and the output type of the artifact.\<close>

definition assignedPair :: "int \<Rightarrow> ('w::len) word world \<Rightarrow> 'w word OutputPair" where
  "assignedPair ty w =
     (let pair0 = lastChunkOutput (ctx_docId (ctx w)) (ctx_chunkId (ctx w)) w
      in pair0\<lparr>ordinal := ordinal pair0 + 1, outputType := ty\<rparr>)"

text \<open>What \<^verbatim>\<open>onFileOutput\<close> adds to the trace for the library folder of an artifact.\<close>

definition libEffects ::
  "('w::len) word externals \<Rightarrow> io \<Rightarrow> FilePath \<Rightarrow> 'w word world \<Rightarrow> 'w word effect list" where
  "libEffects x env file w =
    (let fileLib = FilePath_complete x (FilePath_parent x file) (kChunkLibDir x);
         libTarget = FilePath_complete x
                       (chunkCacheFolder x (ctx_docId (ctx w)) (ctx_chunkId (ctx w))) (kChunkLibDir x)
     in if io_libExists env then
       [ChildrenRecursive fileLib] @
       concat (map (\<lambda>path.
         (if io_libIsDirectory env path
          then [EnsureDirectory (FilePath_complete x libTarget (FilePath_relativePath x path fileLib))]
          else [Move path (FilePath_complete x libTarget (FilePath_relativePath x path fileLib))])
         @ (if isError (io_libEntry env path) then [LogError] else [])) (snd (io_libChildren env)))
       @ (if isError (fst (io_libChildren env)) then [LogError] else [])
       @ [Remove fileLib] @ (if isError (io_libRemove env) then [LogError] else [])
     else [])"

text \<open>One slot of a firing of the console prompt, and of the plot completion.\<close>

definition prompt_step ::
  "('w::len) word externals \<Rightarrow> io \<Rightarrow> string \<Rightarrow> slot \<Rightarrow> 'w word world \<Rightarrow> 'w word world" where
  "prompt_step x env p s w =
     (if (OnConsolePrompt, s) \<in> set (connections w) then invoke x env s (ConsolePrompt p) w else w)"

definition complete_step ::
  "('w::len) word externals \<Rightarrow> io \<Rightarrow> slot \<Rightarrow> 'w word world \<Rightarrow> 'w word world" where
  "complete_step x env s w =
     (if (OnPlotOutputComplete, s) \<in> set (connections w)
      then invoke x env s PlotOutputComplete w else w)"

text \<open>The output type that a slot of the shape of \<open>slot_onFileOutput\<close> binds.\<close>

definition bound_output_type :: "slot \<Rightarrow> int option" where
  "bound_output_type s =
     (case s of
        Bind Ctx_onFileOutput [BoundThis, Arg1, BoundInt ty] \<Rightarrow> Some ty
      | _ \<Rightarrow> None)"

section \<open>Properties\<close>

subsection \<open>What each handler does to the world\<close>

lemma record_effect_simps [simp]:
  "ctx (record_effect e w) = ctx w"
  "connections (record_effect e w) = connections w"
  "lastOutputs (record_effect e w) = lastOutputs w"
  "files (record_effect e w) = files w"
  "trace (record_effect e w) = trace w @ [e]"
  by (simp_all add: record_effect_def)

lemma LOG_ERROR_simps [simp]:
  "ctx (LOG_ERROR w) = ctx w"
  "connections (LOG_ERROR w) = connections w"
  "lastOutputs (LOG_ERROR w) = lastOutputs w"
  "files (LOG_ERROR w) = files w"
  "trace (LOG_ERROR w) = trace w @ [LogError]"
  by (simp_all add: LOG_ERROR_def)

lemma notify_simps [simp]:
  "ctx (notify ev w) = ctx w"
  "connections (notify ev w) = connections w"
  "lastOutputs (notify ev w) = lastOutputs w"
  "files (notify ev w) = files w"
  "trace (notify ev w) = trace w @ [Fire ev]"
  by (simp_all add: notify_def)

lemma connect_slot_simps [simp]:
  "ctx (connect_slot sg s w) = ctx w"
  "connections (connect_slot sg s w) = connections w @ [(sg, s)]"
  "lastOutputs (connect_slot sg s w) = lastOutputs w"
  "files (connect_slot sg s w) = files w"
  "trace (connect_slot sg s w) = trace w"
  by (simp_all add: connect_slot_def)

lemma disconnect_slot_simps [simp]:
  "ctx (disconnect_slot sg s w) = ctx w"
  "connections (disconnect_slot sg s w) = removeAll (sg, s) (connections w)"
  "lastOutputs (disconnect_slot sg s w) = lastOutputs w"
  "files (disconnect_slot sg s w) = files w"
  "trace (disconnect_slot sg s w) = trace w"
  by (simp_all add: disconnect_slot_def)

lemma completions_trace_eq: "trace w' = trace w @ es \<Longrightarrow> completions w' = completions w @ filter is_completed es"
  by (simp add: completions_def)

lemma disconnect_fields:
  "ctx (disconnect x w) = (ctx w)\<lparr>ctx_consoleConnected := False\<rparr>"
  "connections (disconnect x w) =
     removeAll (OnHtmlOutput, slot_onFileOutput (kChunkOutputHtml x))
       (removeAll (OnConsoleInput, Bind Ctx_onConsoleInput [BoundThis])
         (removeAll (OnConsoleOutput, Bind Ctx_onConsoleOutput [BoundThis])
           (removeAll (OnConsolePrompt, Bind Ctx_onConsolePrompt [BoundThis]) (connections w))))"
  "lastOutputs (disconnect x w) = lastOutputs w"
  "files (disconnect x w) = files w"
  "trace (disconnect x w) = trace w @ (if ctx_plotsConnected (ctx w) then [] else [completion_of x w])"
  by (simp_all add: disconnect_def Let_def completion_of_def)

lemma onPlotOutputComplete_fields:
  "ctx (onPlotOutputComplete x w) = (ctx w)\<lparr>ctx_plotsConnected := False\<rparr>"
  "connections (onPlotOutputComplete x w) =
     removeAll (OnPlotOutputComplete, slot_onPlotOutputComplete)
       (removeAll (OnPlotOutput, slot_onFileOutput (kChunkOutputPlot x)) (connections w))"
  "lastOutputs (onPlotOutputComplete x w) = lastOutputs w"
  "files (onPlotOutputComplete x w) = files w"
  "trace (onPlotOutputComplete x w) = trace w @ (if ctx_consoleConnected (ctx w) then [] else [completion_of x w])"
  by (simp_all add: onPlotOutputComplete_def Let_def completion_of_def)

lemma unregisterMonitor_fields:
  "ctx (unregisterMonitor p h w) = ctx w"
  "connections (unregisterMonitor p h w) = removeAll (OnConsolePrompt, slot_unregisterMonitor h) (connections w)"
  "lastOutputs (unregisterMonitor p h w) = lastOutputs w"
  "files (unregisterMonitor p h w) = files w"
  "trace (unregisterMonitor p h w) = trace w @ [FileMonitorUnregister h]"
  by (simp_all add: unregisterMonitor_def Let_def)

lemma onConsoleText_fields:
  "ctx (onConsoleText x env ty output tr w) = ctx w"
  "connections (onConsoleText x env ty output tr w) = connections w"
  "lastOutputs (onConsoleText x env ty output tr w) =
     (if output = [] then lastOutputs w
      else (lastOutputs w)((ctx_docId (ctx w), ctx_chunkId (ctx w)) :=
             assignedPair (kChunkOutputText x) w))"
  "files (onConsoleText x env ty output tr w) =
     (if output = [] \<or> isError (io_write env) then files w
      else (files w)(consoleLog x w \<mapsto>
             (if tr then encodeCsvLine x [numberToString x ty, output] @ [CHR 0x0A]
              else fileContents w (consoleLog x w) @ encodeCsvLine x [numberToString x ty, output] @ [CHR 0x0A])))"
  "trace (onConsoleText x env ty output tr w) =
     trace w @
     (if output = [] then []
      else [UpdateLastChunkOutput (ctx_docId (ctx w)) (ctx_chunkId (ctx w))
              (assignedPair (kChunkOutputText x) w),
            WriteStringToFile (consoleLog x w) (encodeCsvLine x [numberToString x ty, output] @ [CHR 0x0A]) tr]
           @ (if isError (io_write env) then [LogError] else [])
           @ [Fire (ChunkConsoleOutput (ctx_docId (ctx w)) (ctx_chunkId (ctx w)) ty output)])"
  by (simp_all add: onConsoleText_def writeStringToFile_def Let_def consoleLog_def
        chunkOutputFileOfType_def updateLastChunkOutput_def assignedPair_def fileContents_def)

text \<open>The effects of moving the entries of a library folder.\<close>

lemma fold_moveLibFile:
  "snd (fold (moveLibFile x env from to) ps (acc, w)) =
     w\<lparr>trace := trace w @ concat (map (\<lambda>path.
         (if io_libIsDirectory env path
          then [EnsureDirectory (FilePath_complete x to (FilePath_relativePath x path from))]
          else [Move path (FilePath_complete x to (FilePath_relativePath x path from))])
         @ (if isError (io_libEntry env path) then [LogError] else [])) ps)\<rparr>"
  by (induction ps arbitrary: acc w)
     (simp_all add: moveLibFile_def Let_def record_effect_def LOG_ERROR_def)

lemma onFileOutput_fields:
  "ctx (onFileOutput x env file ty w) = ctx w"
  "connections (onFileOutput x env file ty w) = connections w"
  "files (onFileOutput x env file ty w) = files w"
  "lastOutputs (onFileOutput x env file ty w) =
     (if isError (io_move env) then lastOutputs w
      else (lastOutputs w)((ctx_docId (ctx w), ctx_chunkId (ctx w)) := assignedPair ty w))"
  "trace (onFileOutput x env file ty w) =
     trace w @ [Move file (chunkOutputFile x (ctx_docId (ctx w)) (ctx_chunkId (ctx w)) (assignedPair ty w))]
     @ (if isError (io_move env) then [LogError]
        else libEffects x env file w @
             [EnqueueChunkOutput (ctx_docId (ctx w)) (ctx_chunkId (ctx w)) ty
                (chunkOutputFile x (ctx_docId (ctx w)) (ctx_chunkId (ctx w)) (assignedPair ty w)),
              UpdateLastChunkOutput (ctx_docId (ctx w)) (ctx_chunkId (ctx w)) (assignedPair ty w)])"
  by (simp_all add: onFileOutput_def Let_def fold_moveLibFile assignedPair_def libEffects_def
        updateLastChunkOutput_def enqueueChunkOutput_def)


subsection \<open>Firing the console prompt\<close>

lemma slots_distinct [simp]:
  "slot_unregisterMonitor h \<noteq> slot_onConsolePrompt"
  "slot_onConsolePrompt \<noteq> slot_unregisterMonitor h"
  "Bind Ctx_onConsolePrompt [BoundThis] \<noteq> slot_onConsolePrompt"
  "Bind Ctx_onConsolePrompt [BoundThis] \<noteq> slot_unregisterMonitor h"
  "(slot_unregisterMonitor h = slot_unregisterMonitor h') = (h = h')"
  "slot_onConsolePrompt \<noteq> Bind Ctx_onConsolePrompt [BoundThis]"
  "slot_unregisterMonitor h \<noteq> Bind Ctx_onConsolePrompt [BoundThis]"
  by (simp_all add: slot_unregisterMonitor_def slot_onConsolePrompt_def)

lemma completion_of_cong:
  "ctx_docId (ctx w1) = ctx_docId (ctx w) \<Longrightarrow> ctx_chunkId (ctx w1) = ctx_chunkId (ctx w)
   \<Longrightarrow> completion_of x w1 = completion_of x w"
  by (simp add: completion_of_def)

lemma is_completed_completion_of [simp]: "is_completed (completion_of x w)"
  by (simp add: completion_of_def)

lemma invoke_prompt_cases:
  obtains (ctx) "s = slot_onConsolePrompt"
      "invoke x env s (ConsolePrompt p) w = onConsolePrompt x p w"
  | (unreg) h where "s = slot_unregisterMonitor h"
      "invoke x env s (ConsolePrompt p) w = unregisterMonitor p h w"
  | (other) "s \<noteq> slot_onConsolePrompt" "\<And>h. s \<noteq> slot_unregisterMonitor h"
      "invoke x env s (ConsolePrompt p) w = w"
proof (cases "s = slot_onConsolePrompt")
  case True
  then show ?thesis using ctx by (simp add: invoke_def)
next
  case False
  show ?thesis
  proof (cases "\<exists>h. s = slot_unregisterMonitor h")
    case True
    then obtain h where h: "s = slot_unregisterMonitor h" by blast
    then have "invoke x env s (ConsolePrompt p) w = unregisterMonitor p h w"
      by (simp add: invoke_def slot_unregisterMonitor_def slot_onConsolePrompt_def)
    with h show ?thesis using unreg by blast
  next
    case no: False
    then have "invoke x env s (ConsolePrompt p) w = w"
      using False
      by (auto simp add: invoke_def slot_unregisterMonitor_def
            split: slot.splits callee.splits list.splits bound.splits)
    with no False show ?thesis using other by blast
  qed
qed

lemma onConsolePrompt_fields:
  "ctx (onConsolePrompt x p w) = (ctx w)\<lparr>ctx_consoleConnected := False\<rparr>"
  "trace (onConsolePrompt x p w) =
     trace w @ (if ctx_consoleConnected (ctx w) \<and> \<not> ctx_plotsConnected (ctx w)
                then [completion_of x w] else [])"
  "lastOutputs (onConsolePrompt x p w) = lastOutputs w"
  "files (onConsolePrompt x p w) = files w"
  "(OnConsolePrompt, slot_onConsolePrompt) \<in> set (connections (onConsolePrompt x p w))
     \<longleftrightarrow> (OnConsolePrompt, slot_onConsolePrompt) \<in> set (connections w)"
  "(OnConsolePrompt, slot_unregisterMonitor h) \<in> set (connections (onConsolePrompt x p w))
     \<longleftrightarrow> (OnConsolePrompt, slot_unregisterMonitor h) \<in> set (connections w)"
  "(OnPlotOutputComplete, s0) \<in> set (connections (onConsolePrompt x p w))
     \<longleftrightarrow> (OnPlotOutputComplete, s0) \<in> set (connections w)"
  by (auto simp add: onConsolePrompt_def disconnect_fields)

lemma prompt_step_ctx:
  "ctx (prompt_step x env p s w) =
     (if s = slot_onConsolePrompt \<and> (OnConsolePrompt, s) \<in> set (connections w)
      then (ctx w)\<lparr>ctx_consoleConnected := False\<rparr> else ctx w)"
  by (rule invoke_prompt_cases[of s x env p w])
     (auto simp add: prompt_step_def onConsolePrompt_fields unregisterMonitor_fields)

lemma prompt_step_trace:
  "trace (prompt_step x env p s w) =
     trace w @
     (if (OnConsolePrompt, s) \<in> set (connections w) then
        (if s = slot_onConsolePrompt then
           (if ctx_consoleConnected (ctx w) \<and> \<not> ctx_plotsConnected (ctx w)
            then [completion_of x w] else [])
         else (case s of Bind Plots_unregisterMonitor [Arg1, BoundHandle h] \<Rightarrow> [FileMonitorUnregister h]
               | _ \<Rightarrow> []))
      else [])"
proof (rule invoke_prompt_cases[of s x env p w])
  assume "s = slot_onConsolePrompt" "invoke x env s (ConsolePrompt p) w = onConsolePrompt x p w"
  then show ?thesis by (simp add: prompt_step_def onConsolePrompt_fields)
next
  fix h assume "s = slot_unregisterMonitor h" "invoke x env s (ConsolePrompt p) w = unregisterMonitor p h w"
  then show ?thesis
    by (simp add: prompt_step_def unregisterMonitor_fields) (simp add: slot_unregisterMonitor_def)
next
  assume a: "s \<noteq> slot_onConsolePrompt" "\<And>h. s \<noteq> slot_unregisterMonitor h"
     "invoke x env s (ConsolePrompt p) w = w"
  then show ?thesis
    by (auto simp add: prompt_step_def slot_unregisterMonitor_def
          split: slot.splits callee.splits list.splits bound.splits)
qed

lemma prompt_step_conn:
  "(OnConsolePrompt, slot_onConsolePrompt) \<in> set (connections (prompt_step x env p s w))
     \<longleftrightarrow> (OnConsolePrompt, slot_onConsolePrompt) \<in> set (connections w)"
  "(OnPlotOutputComplete, s0) \<in> set (connections (prompt_step x env p s w))
     \<longleftrightarrow> (OnPlotOutputComplete, s0) \<in> set (connections w)"
  "(OnConsolePrompt, slot_unregisterMonitor h) \<in> set (connections (prompt_step x env p s w))
     \<longleftrightarrow> (OnConsolePrompt, slot_unregisterMonitor h) \<in> set (connections w)
          \<and> s \<noteq> slot_unregisterMonitor h"
  by (rule invoke_prompt_cases[of s x env p w];
      auto simp add: prompt_step_def onConsolePrompt_fields unregisterMonitor_fields)+

lemma prompt_step_completions:
  "completions (prompt_step x env p s w) =
     completions w @
     (if (OnConsolePrompt, s) \<in> set (connections w) \<and> s = slot_onConsolePrompt \<and>
         ctx_consoleConnected (ctx w) \<and> \<not> ctx_plotsConnected (ctx w)
      then [completion_of x w] else [])"
  by (simp add: completions_def prompt_step_trace
        split: slot.splits callee.splits list.splits bound.splits)

lemma prompt_step_count:
  "count_list (trace (prompt_step x env p s w)) (FileMonitorUnregister h) =
     count_list (trace w) (FileMonitorUnregister h) +
     (if (OnConsolePrompt, s) \<in> set (connections w) \<and> s = slot_unregisterMonitor h then 1 else 0)"
  by (auto simp add: prompt_step_trace completion_of_def slot_unregisterMonitor_def slot_onConsolePrompt_def
        split: slot.splits callee.splits list.splits bound.splits)

lemma run_slots_prompt_unfold:
  "run_slots x env (ConsolePrompt p) (s # ss) w =
     run_slots x env (ConsolePrompt p) ss (prompt_step x env p s w)"
  by (simp add: prompt_step_def)

lemma run_prompt_ctx:
  "ctx (run_slots x env (ConsolePrompt p) ss w) =
     (if slot_onConsolePrompt \<in> set ss \<and> (OnConsolePrompt, slot_onConsolePrompt) \<in> set (connections w)
      then (ctx w)\<lparr>ctx_consoleConnected := False\<rparr> else ctx w)"
proof (induction ss arbitrary: w)
  case Nil
  then show ?case by simp
next
  case (Cons s ss)
  show ?case
    unfolding run_slots_prompt_unfold Cons.IH
    by (auto simp add: prompt_step_ctx prompt_step_conn)
qed

lemma run_prompt_conn:
  "(OnConsolePrompt, slot_onConsolePrompt) \<in> set (connections (run_slots x env (ConsolePrompt p) ss w))
     \<longleftrightarrow> (OnConsolePrompt, slot_onConsolePrompt) \<in> set (connections w)"
  "(OnPlotOutputComplete, s0) \<in> set (connections (run_slots x env (ConsolePrompt p) ss w))
     \<longleftrightarrow> (OnPlotOutputComplete, s0) \<in> set (connections w)"
  "(OnConsolePrompt, slot_unregisterMonitor h) \<in> set (connections (run_slots x env (ConsolePrompt p) ss w))
     \<longleftrightarrow> (OnConsolePrompt, slot_unregisterMonitor h) \<in> set (connections w)
          \<and> slot_unregisterMonitor h \<notin> set ss"
proof (induction ss arbitrary: w)
  case Nil
  { case 1 show ?case by simp }
  { case 2 show ?case by simp }
  { case 3 show ?case by simp }
next
  case (Cons s ss)
  { case 1 show ?case unfolding run_slots_prompt_unfold Cons.IH by (simp add: prompt_step_conn) }
  { case 2 show ?case unfolding run_slots_prompt_unfold Cons.IH by (simp add: prompt_step_conn) }
  { case 3 show ?case unfolding run_slots_prompt_unfold Cons.IH by (auto simp add: prompt_step_conn) }
qed

lemma run_prompt_completions:
  "completions (run_slots x env (ConsolePrompt p) ss w) =
     completions w @
     (if slot_onConsolePrompt \<in> set ss \<and> (OnConsolePrompt, slot_onConsolePrompt) \<in> set (connections w)
         \<and> ctx_consoleConnected (ctx w) \<and> \<not> ctx_plotsConnected (ctx w)
      then [completion_of x w] else [])"
proof (induction ss arbitrary: w)
  case Nil
  then show ?case by simp
next
  case (Cons s ss)
  show ?case
    unfolding run_slots_prompt_unfold Cons.IH
    by (auto simp add: prompt_step_completions prompt_step_ctx prompt_step_conn completion_of_def)
qed

lemma run_prompt_count:
  "count_list (trace (run_slots x env (ConsolePrompt p) ss w)) (FileMonitorUnregister h) =
     count_list (trace w) (FileMonitorUnregister h) +
     (if slot_unregisterMonitor h \<in> set ss \<and> (OnConsolePrompt, slot_unregisterMonitor h) \<in> set (connections w)
      then 1 else 0)"
proof (induction ss arbitrary: w)
  case Nil
  then show ?case by simp
next
  case (Cons s ss)
  show ?case
    unfolding run_slots_prompt_unfold Cons.IH
    by (auto simp add: prompt_step_count prompt_step_conn)
qed

lemma slots_of_signal:
  "s \<in> set (map snd (filter (\<lambda>c. fst c = sg) cs)) \<longleftrightarrow> (sg, s) \<in> set cs"
  by (induction cs) auto

lemma deliver_prompt_ctx:
  "ctx (deliver x env (ConsolePrompt p) w) =
     (if (OnConsolePrompt, slot_onConsolePrompt) \<in> set (connections w)
      then (ctx w)\<lparr>ctx_consoleConnected := False\<rparr> else ctx w)"
  unfolding deliver_def run_prompt_ctx slots_of_signal signal_of.simps by simp

lemma deliver_prompt_completions:
  "completions (deliver x env (ConsolePrompt p) w) =
     completions w @
     (if (OnConsolePrompt, slot_onConsolePrompt) \<in> set (connections w)
         \<and> ctx_consoleConnected (ctx w) \<and> \<not> ctx_plotsConnected (ctx w)
      then [completion_of x w] else [])"
  unfolding deliver_def run_prompt_completions slots_of_signal signal_of.simps by simp

lemma deliver_prompt_conn:
  "(OnConsolePrompt, slot_onConsolePrompt) \<in> set (connections (deliver x env (ConsolePrompt p) w))
     \<longleftrightarrow> (OnConsolePrompt, slot_onConsolePrompt) \<in> set (connections w)"
  "(OnPlotOutputComplete, s0) \<in> set (connections (deliver x env (ConsolePrompt p) w))
     \<longleftrightarrow> (OnPlotOutputComplete, s0) \<in> set (connections w)"
  "(OnConsolePrompt, slot_unregisterMonitor h) \<notin> set (connections (deliver x env (ConsolePrompt p) w))"
  unfolding deliver_def run_prompt_conn slots_of_signal signal_of.simps by simp_all

lemma deliver_prompt_count:
  "count_list (trace (deliver x env (ConsolePrompt p) w)) (FileMonitorUnregister h) =
     count_list (trace w) (FileMonitorUnregister h) +
     (if (OnConsolePrompt, slot_unregisterMonitor h) \<in> set (connections w) then 1 else 0)"
  unfolding deliver_def run_prompt_count slots_of_signal signal_of.simps by simp

subsection \<open>Firing the plot completion and the other signals\<close>

lemma libEffects_no_completion: "filter is_completed (libEffects x env file w) = []"
  by (simp add: libEffects_def Let_def filter_concat comp_def)


lemma onFileOutput_completions: "completions (onFileOutput x env file ty w) = completions w"
  by (simp add: completions_def onFileOutput_fields libEffects_no_completion)

lemma onConsoleText_completions: "completions (onConsoleText x env ty output tr w) = completions w"
  by (simp add: completions_def onConsoleText_fields)

lemma invoke_other:
  assumes "\<not> is_prompt ev" "\<not> is_complete ev"
  shows "ctx (invoke x env s ev w) = ctx w"
    and "connections (invoke x env s ev w) = connections w"
    and "completions (invoke x env s ev w) = completions w"
  using assms
  by (cases ev; simp add: invoke_def onConsoleOutput_def onConsoleInput_def onConsoleText_fields
        onFileOutput_fields onFileOutput_completions onConsoleText_completions
        split: slot.splits callee.splits list.splits bound.splits)+

lemma run_other:
  assumes "\<not> is_prompt ev" "\<not> is_complete ev"
  shows "ctx (run_slots x env ev ss w) = ctx w
       \<and> connections (run_slots x env ev ss w) = connections w
       \<and> completions (run_slots x env ev ss w) = completions w"
  by (induction ss arbitrary: w) (simp_all add: invoke_other[OF assms])

lemma deliver_other:
  assumes "\<not> is_prompt ev" "\<not> is_complete ev"
  shows "ctx (deliver x env ev w) = ctx w"
    and "connections (deliver x env ev w) = connections w"
    and "completions (deliver x env ev w) = completions w"
  by (simp_all add: deliver_def run_other[OF assms])

lemma run_slots_complete_unfold:
  "run_slots x env PlotOutputComplete (s # ss) w =
     run_slots x env PlotOutputComplete ss (complete_step x env s w)"
  by (simp add: complete_step_def)

lemma slotC_distinct [simp]:
  "slot_onFileOutput k \<noteq> slot_onPlotOutputComplete"
  "slot_onPlotOutputComplete \<noteq> slot_onFileOutput k"
  by (simp_all add: slot_onFileOutput_def slot_onPlotOutputComplete_def)

lemma complete_step_ctx:
  "ctx (complete_step x env s w) =
     (if s = slot_onPlotOutputComplete \<and> (OnPlotOutputComplete, s) \<in> set (connections w)
      then (ctx w)\<lparr>ctx_plotsConnected := False\<rparr> else ctx w)"
  by (simp add: complete_step_def invoke_def onPlotOutputComplete_fields)

lemma complete_step_completions:
  "completions (complete_step x env s w) =
     completions w @
     (if s = slot_onPlotOutputComplete \<and> (OnPlotOutputComplete, s) \<in> set (connections w)
         \<and> \<not> ctx_consoleConnected (ctx w)
      then [completion_of x w] else [])"
  by (simp add: complete_step_def invoke_def onPlotOutputComplete_fields completions_def)

lemma complete_step_conn:
  "(OnPlotOutputComplete, slot_onPlotOutputComplete) \<in> set (connections (complete_step x env s w))
     \<longleftrightarrow> (OnPlotOutputComplete, slot_onPlotOutputComplete) \<in> set (connections w)
          \<and> s \<noteq> slot_onPlotOutputComplete"
  "(OnConsolePrompt, s0) \<in> set (connections (complete_step x env s w))
     \<longleftrightarrow> (OnConsolePrompt, s0) \<in> set (connections w)"
  by (auto simp add: complete_step_def invoke_def onPlotOutputComplete_fields)

lemma run_complete_conn:
  "(OnPlotOutputComplete, slot_onPlotOutputComplete) \<in> set (connections (run_slots x env PlotOutputComplete ss w))
     \<longleftrightarrow> (OnPlotOutputComplete, slot_onPlotOutputComplete) \<in> set (connections w)
          \<and> slot_onPlotOutputComplete \<notin> set ss"
  "(OnConsolePrompt, s0) \<in> set (connections (run_slots x env PlotOutputComplete ss w))
     \<longleftrightarrow> (OnConsolePrompt, s0) \<in> set (connections w)"
proof (induction ss arbitrary: w)
  case Nil
  { case 1 show ?case by simp }
  { case 2 show ?case by simp }
next
  case (Cons s ss)
  { case 1 show ?case unfolding run_slots_complete_unfold Cons.IH by (auto simp add: complete_step_conn) }
  { case 2 show ?case unfolding run_slots_complete_unfold Cons.IH by (simp add: complete_step_conn) }
qed

lemma run_complete_ctx:
  "ctx (run_slots x env PlotOutputComplete ss w) =
     (if slot_onPlotOutputComplete \<in> set ss
         \<and> (OnPlotOutputComplete, slot_onPlotOutputComplete) \<in> set (connections w)
      then (ctx w)\<lparr>ctx_plotsConnected := False\<rparr> else ctx w)"
proof (induction ss arbitrary: w)
  case Nil
  then show ?case by simp
next
  case (Cons s ss)
  show ?case
    unfolding run_slots_complete_unfold Cons.IH
    by (auto simp add: complete_step_ctx complete_step_conn)
qed

lemma run_complete_completions:
  "completions (run_slots x env PlotOutputComplete ss w) =
     completions w @
     (if slot_onPlotOutputComplete \<in> set ss
         \<and> (OnPlotOutputComplete, slot_onPlotOutputComplete) \<in> set (connections w)
         \<and> \<not> ctx_consoleConnected (ctx w)
      then [completion_of x w] else [])"
proof (induction ss arbitrary: w)
  case Nil
  then show ?case by simp
next
  case (Cons s ss)
  show ?case
    unfolding run_slots_complete_unfold Cons.IH
    by (auto simp add: complete_step_completions complete_step_ctx complete_step_conn completion_of_def)
qed

lemma deliver_complete_ctx:
  "ctx (deliver x env PlotOutputComplete w) =
     (if (OnPlotOutputComplete, slot_onPlotOutputComplete) \<in> set (connections w)
      then (ctx w)\<lparr>ctx_plotsConnected := False\<rparr> else ctx w)"
  unfolding deliver_def run_complete_ctx slots_of_signal signal_of.simps by simp

lemma deliver_complete_completions:
  "completions (deliver x env PlotOutputComplete w) =
     completions w @
     (if (OnPlotOutputComplete, slot_onPlotOutputComplete) \<in> set (connections w)
         \<and> \<not> ctx_consoleConnected (ctx w)
      then [completion_of x w] else [])"
  unfolding deliver_def run_complete_completions slots_of_signal signal_of.simps by simp

lemma deliver_complete_conn:
  "(OnPlotOutputComplete, slot_onPlotOutputComplete) \<notin> set (connections (deliver x env PlotOutputComplete w))"
  "(OnConsolePrompt, s0) \<in> set (connections (deliver x env PlotOutputComplete w))
     \<longleftrightarrow> (OnConsolePrompt, s0) \<in> set (connections w)"
  unfolding deliver_def run_complete_conn slots_of_signal signal_of.simps by simp_all

subsection \<open>The join of the console and the plots\<close>

lemma event_kind_cases:
  obtains (prompt) p where "ev = ConsolePrompt p"
  | (complete) "ev = PlotOutputComplete"
  | (other) "\<not> is_prompt ev" "\<not> is_complete ev"
  by (cases ev) auto

lemma has_prompt_simps [simp]:
  "has_prompt [] = False"
  "has_prompt (e # es) = (is_prompt (snd e) \<or> has_prompt es)"
  by (simp_all add: has_prompt_def)

lemma has_complete_simps [simp]:
  "has_complete [] = False"
  "has_complete (e # es) = (is_complete (snd e) \<or> has_complete es)"
  by (simp_all add: has_complete_def)

lemma deliver_ids:
  "ctx_docId (ctx (deliver x env ev w)) = ctx_docId (ctx w)"
  "ctx_chunkId (ctx (deliver x env ev w)) = ctx_chunkId (ctx w)"
  by (rule event_kind_cases[of ev];
      simp add: deliver_prompt_ctx deliver_complete_ctx deliver_other)+

lemma completion_of_deliver [simp]:
  "completion_of x (deliver x' env ev w) = completion_of x w"
  by (simp add: completion_of_def deliver_ids)

text \<open>Both sides have finished: nothing fires any more.\<close>

lemma completed_stays:
  assumes "\<not> ctx_consoleConnected (ctx w)"
      and "(OnPlotOutputComplete, slot_onPlotOutputComplete) \<notin> set (connections w)"
  shows "completions (deliver_all x evs w) = completions w"
  using assms
proof (induction evs arbitrary: w)
  case Nil
  then show ?case by simp
next
  case (Cons e evs)
  show ?case
  proof (rule event_kind_cases[of "snd e"])
    fix p assume ev: "snd e = ConsolePrompt p"
    have "completions (deliver_all x evs (deliver x (fst e) (snd e) w))
            = completions (deliver x (fst e) (snd e) w)"
      by (rule Cons.IH) (use Cons.prems in \<open>simp_all add: ev deliver_prompt_ctx deliver_prompt_conn\<close>)
    then show ?thesis using Cons.prems by (simp add: ev deliver_prompt_completions)
  next
    assume ev: "snd e = PlotOutputComplete"
    have "completions (deliver_all x evs (deliver x (fst e) (snd e) w))
            = completions (deliver x (fst e) (snd e) w)"
      by (rule Cons.IH) (use Cons.prems in \<open>simp_all add: ev deliver_complete_ctx deliver_complete_conn\<close>)
    then show ?thesis using Cons.prems by (simp add: ev deliver_complete_completions)
  next
    assume ev: "\<not> is_prompt (snd e)" "\<not> is_complete (snd e)"
    have "completions (deliver_all x evs (deliver x (fst e) (snd e) w))
            = completions (deliver x (fst e) (snd e) w)"
      by (rule Cons.IH) (use Cons.prems in \<open>simp_all add: deliver_other[OF ev]\<close>)
    then show ?thesis by (simp add: deliver_other[OF ev])
  qed
qed

text \<open>The console has finished, the plots have not.\<close>

lemma console_done_waits:
  assumes "\<not> ctx_consoleConnected (ctx w)"
      and "(OnPlotOutputComplete, slot_onPlotOutputComplete) \<in> set (connections w)"
  shows "completions (deliver_all x evs w) =
           completions w @ (if has_complete evs then [completion_of x w] else [])"
  using assms
proof (induction evs arbitrary: w)
  case Nil
  then show ?case by simp
next
  case (Cons e evs)
  show ?case
  proof (rule event_kind_cases[of "snd e"])
    fix p assume ev: "snd e = ConsolePrompt p"
    have "completions (deliver_all x evs (deliver x (fst e) (snd e) w)) =
            completions (deliver x (fst e) (snd e) w) @
              (if has_complete evs then [completion_of x (deliver x (fst e) (snd e) w)] else [])"
      by (rule Cons.IH) (use Cons.prems in \<open>simp_all add: ev deliver_prompt_ctx deliver_prompt_conn\<close>)
    then show ?thesis using Cons.prems by (simp add: ev deliver_prompt_completions)
  next
    assume ev: "snd e = PlotOutputComplete"
    have "completions (deliver_all x evs (deliver x (fst e) (snd e) w))
            = completions (deliver x (fst e) (snd e) w)"
      by (rule completed_stays)
         (use Cons.prems in \<open>simp_all add: ev deliver_complete_ctx deliver_complete_conn\<close>)
    then show ?thesis using Cons.prems by (simp add: ev deliver_complete_completions)
  next
    assume ev: "\<not> is_prompt (snd e)" "\<not> is_complete (snd e)"
    have "completions (deliver_all x evs (deliver x (fst e) (snd e) w)) =
            completions (deliver x (fst e) (snd e) w) @
              (if has_complete evs then [completion_of x (deliver x (fst e) (snd e) w)] else [])"
      by (rule Cons.IH) (use Cons.prems in \<open>simp_all add: deliver_other[OF ev]\<close>)
    then show ?thesis using ev by (simp add: deliver_other[OF ev])
  qed
qed

text \<open>The plots have finished, the console has not.\<close>

lemma plots_done_waits:
  assumes "ctx_consoleConnected (ctx w)" "\<not> ctx_plotsConnected (ctx w)"
      and "(OnConsolePrompt, slot_onConsolePrompt) \<in> set (connections w)"
      and "(OnPlotOutputComplete, slot_onPlotOutputComplete) \<notin> set (connections w)"
  shows "completions (deliver_all x evs w) =
           completions w @ (if has_prompt evs then [completion_of x w] else [])"
  using assms
proof (induction evs arbitrary: w)
  case Nil
  then show ?case by simp
next
  case (Cons e evs)
  show ?case
  proof (rule event_kind_cases[of "snd e"])
    fix p assume ev: "snd e = ConsolePrompt p"
    have "completions (deliver_all x evs (deliver x (fst e) (snd e) w))
            = completions (deliver x (fst e) (snd e) w)"
      by (rule completed_stays)
         (use Cons.prems in \<open>simp_all add: ev deliver_prompt_ctx deliver_prompt_conn\<close>)
    then show ?thesis using Cons.prems by (simp add: ev deliver_prompt_completions)
  next
    assume ev: "snd e = PlotOutputComplete"
    have "completions (deliver_all x evs (deliver x (fst e) (snd e) w)) =
            completions (deliver x (fst e) (snd e) w) @
              (if has_prompt evs then [completion_of x (deliver x (fst e) (snd e) w)] else [])"
      by (rule Cons.IH) (use Cons.prems in \<open>simp_all add: ev deliver_complete_ctx deliver_complete_conn\<close>)
    then show ?thesis using Cons.prems by (simp add: ev deliver_complete_completions)
  next
    assume ev: "\<not> is_prompt (snd e)" "\<not> is_complete (snd e)"
    have "completions (deliver_all x evs (deliver x (fst e) (snd e) w)) =
            completions (deliver x (fst e) (snd e) w) @
              (if has_prompt evs then [completion_of x (deliver x (fst e) (snd e) w)] else [])"
      by (rule Cons.IH) (use Cons.prems in \<open>simp_all add: deliver_other[OF ev]\<close>)
    then show ?thesis using ev by (simp add: deliver_other[OF ev])
  qed
qed

lemma armed_joins:
  assumes "armed w"
  shows "completions (deliver_all x evs w) =
           completions w @ (if has_prompt evs \<and> has_complete evs then [completion_of x w] else [])"
  using assms
proof (induction evs arbitrary: w)
  case Nil
  then show ?case by simp
next
  case (Cons e evs)
  have a: "ctx_consoleConnected (ctx w)" "ctx_plotsConnected (ctx w)"
    "(OnConsolePrompt, slot_onConsolePrompt) \<in> set (connections w)"
    "(OnPlotOutputComplete, slot_onPlotOutputComplete) \<in> set (connections w)"
    using Cons.prems by (simp_all add: armed_def)
  show ?case
  proof (rule event_kind_cases[of "snd e"])
    fix p assume ev: "snd e = ConsolePrompt p"
    have "completions (deliver_all x evs (deliver x (fst e) (snd e) w)) =
            completions (deliver x (fst e) (snd e) w) @
              (if has_complete evs then [completion_of x (deliver x (fst e) (snd e) w)] else [])"
      by (rule console_done_waits)
         (use a in \<open>simp_all add: ev deliver_prompt_ctx deliver_prompt_conn\<close>)
    then show ?thesis using a by (simp add: ev deliver_prompt_completions)
  next
    assume ev: "snd e = PlotOutputComplete"
    have "completions (deliver_all x evs (deliver x (fst e) (snd e) w)) =
            completions (deliver x (fst e) (snd e) w) @
              (if has_prompt evs then [completion_of x (deliver x (fst e) (snd e) w)] else [])"
      by (rule plots_done_waits)
         (use a in \<open>simp_all add: ev deliver_complete_ctx deliver_complete_conn\<close>)
    then show ?thesis using a by (simp add: ev deliver_complete_completions)
  next
    assume ev: "\<not> is_prompt (snd e)" "\<not> is_complete (snd e)"
    have "armed (deliver x (fst e) (snd e) w)"
      using a by (simp add: armed_def deliver_other[OF ev])
    then have "completions (deliver_all x evs (deliver x (fst e) (snd e) w)) =
            completions (deliver x (fst e) (snd e) w) @
              (if has_prompt evs \<and> has_complete evs
               then [completion_of x (deliver x (fst e) (snd e) w)] else [])"
      by (rule Cons.IH)
    then show ?thesis using ev by (simp add: deliver_other[OF ev])
  qed
qed

subsection \<open>Connecting, and the callbacks of the file monitor\<close>

lemma completions_simps:
  "completions (record_effect e w) = completions w @ (if is_completed e then [e] else [])"
  "completions (LOG_ERROR w) = completions w"
  "completions (connect_slot sg s w) = completions w"
  "completions (disconnect_slot sg s w) = completions w"
  "completions (w\<lparr>ctx := c\<rparr>) = completions w"
  by (simp_all add: completions_def)

lemma fold_remove_stale:
  "fold (\<lambda>file v. if isPlotPath x file
                    then (let v1 = record_effect (Remove file) v
                          in if isError (io_remove env file) then LOG_ERROR v1 else v1)
                    else v) ps w =
     w\<lparr>trace := trace w @ concat (map (\<lambda>file.
          if isPlotPath x file
          then [Remove file] @ (if isError (io_remove env file) then [LogError] else [])
          else []) ps)\<rparr>"
  by (induction ps arbitrary: w) (simp_all add: Let_def record_effect_def LOG_ERROR_def)

lemma beginPlotCapture_error:
  "fst (beginPlotCapture x env plotFolder w) =
     (if isError (fst (io_children env)) then fst (io_children env)
      else if isError (io_executeString env) then io_executeString env else Success)"
  by (simp add: beginPlotCapture_def Let_def)

lemma beginPlotCapture_fields:
  "ctx (snd (beginPlotCapture x env plotFolder w)) = ctx w"
  "connections (snd (beginPlotCapture x env plotFolder w)) = connections w"
  "lastOutputs (snd (beginPlotCapture x env plotFolder w)) = lastOutputs w"
  "files (snd (beginPlotCapture x env plotFolder w)) = files w"
  "completions (snd (beginPlotCapture x env plotFolder w)) = completions w"
  by (simp_all add: beginPlotCapture_def Let_def fold_remove_stale completions_def
        filter_concat comp_def)

lemma connect_fields:
  assumes "\<not> isError (io_ensureDirectory env)"
  shows "ctx (connect x env w) =
           (ctx w)\<lparr>ctx_plotsConnected :=
                     (if isError (fst (beginPlotCapture x env
                            (chunkOutputPath x (ctx_docId (ctx w)) (ctx_chunkId (ctx w))) w))
                      then ctx_plotsConnected (ctx w) else True),
                   ctx_consoleConnected := True\<rparr>"
    and "connections (connect x env w) =
           connections w @
           [(OnConsolePrompt, slot_onConsolePrompt), (OnConsoleOutput, slot_onConsoleOutput),
            (OnConsoleInput, slot_onConsoleInput),
            (OnPlotOutput, slot_onFileOutput (kChunkOutputPlot x)),
            (OnPlotOutputComplete, slot_onPlotOutputComplete),
            (OnHtmlOutput, slot_onFileOutput (kChunkOutputHtml x))]"
    and "lastOutputs (connect x env w) = lastOutputs w"
    and "files (connect x env w) = files w"
    and "completions (connect x env w) = completions w"
  using assms
  by (simp_all add: connect_def Let_def beginPlotCapture_fields beginPlotCapture_error
        completions_simps)

lemma connect_arms:
  assumes "\<not> isError (io_ensureDirectory env)"
      and "\<not> isError (fst (beginPlotCapture x env
                  (chunkOutputPath x (ctx_docId (ctx w)) (ctx_chunkId (ctx w))) w))"
  shows "armed (connect x env w)"
  using assms by (simp add: armed_def connect_fields)

subsection \<open>Slots add no step of the capture session\<close>

lemma libEffects_no_step: "filter capture_step (libEffects x env file w) = []"
  by (simp add: libEffects_def Let_def filter_concat comp_def)

lemma libEffects_no_unregister: "count_list (libEffects x env file w) (FileMonitorUnregister h) = 0"
proof -
  have inner: "count_list (concat (map (\<lambda>path.
         (if io_libIsDirectory env path
          then [EnsureDirectory (f path)]
          else [Move path (f path)])
         @ (if isError (io_libEntry env path) then [LogError] else [])) ps))
       (FileMonitorUnregister h) = 0" for f ps
    by (induction ps) simp_all
  show ?thesis
    by (simp add: libEffects_def Let_def inner)
qed

lemma invoke_artifact:
  "invoke x env s (PlotOutput path) w =
     (case bound_output_type s of Some ty \<Rightarrow> onFileOutput x env path ty w | None \<Rightarrow> w)"
  "invoke x env s (HtmlOutput path) w =
     (case bound_output_type s of Some ty \<Rightarrow> onFileOutput x env path ty w | None \<Rightarrow> w)"
  by (simp_all add: invoke_def bound_output_type_def
        split: slot.splits callee.splits list.splits bound.splits)

lemma invoke_other_cases:
  assumes "\<not> is_prompt ev"
  obtains (noop) "invoke x env s ev w = w"
  | (console) ty str where "invoke x env s ev w = onConsoleText x env ty str False w"
  | (artifact) path ty where "invoke x env s ev w = onFileOutput x env path ty w"
  | (completion) "invoke x env s ev w = onPlotOutputComplete x w"
proof (cases ev)
  case (ConsolePrompt p)
  then show ?thesis using assms by simp
next
  case (ConsoleOutput ty str)
  then show ?thesis
    using noop console[of "kChunkConsoleOutput x" str] console[of "kChunkConsoleError x" str]
    by (cases "s = slot_onConsoleOutput"; cases "ty = ConsoleOutputNormal")
       (simp_all add: invoke_def onConsoleOutput_def)
next
  case (ConsoleInput str)
  then show ?thesis
    using noop console[of "kChunkConsoleInput x" str]
    by (cases "s = slot_onConsoleInput") (simp_all add: invoke_def onConsoleInput_def)
next
  case (PlotOutput path)
  then show ?thesis
    using noop artifact[of path]
    by (cases "bound_output_type s") (simp_all add: invoke_artifact)
next
  case PlotOutputComplete
  then show ?thesis
    using noop completion
    by (cases "s = slot_onPlotOutputComplete") (simp_all add: invoke_def)
next
  case (HtmlOutput path)
  then show ?thesis
    using noop artifact[of path]
    by (cases "bound_output_type s") (simp_all add: invoke_artifact)
next
  case (ChunkConsoleOutput d c t str)
  then show ?thesis using noop by (simp add: invoke_def)
next
  case (ChunkExecCompleted d c i)
  then show ?thesis using noop by (simp add: invoke_def)
qed

lemma invoke_steps:
  "filter capture_step (trace (invoke x env s ev w)) = filter capture_step (trace w)"
proof (cases "is_prompt ev")
  case True
  then obtain p where ev: "ev = ConsolePrompt p"
    by (cases ev) auto
  show ?thesis
    unfolding ev
    by (rule invoke_prompt_cases[of s x env p w])
       (simp_all add: onConsolePrompt_fields unregisterMonitor_fields completion_of_def)
next
  case False
  then show ?thesis
    by (rule invoke_other_cases[of ev x env s w])
       (simp_all add: onConsoleText_fields onFileOutput_fields onPlotOutputComplete_fields
          libEffects_no_step completion_of_def)
qed

lemma invoke_no_unregister:
  assumes "\<not> is_prompt ev"
  shows "count_list (trace (invoke x env s ev w)) (FileMonitorUnregister h)
           = count_list (trace w) (FileMonitorUnregister h)"
  by (rule invoke_other_cases[OF assms, of x env s w])
     (simp_all add: onConsoleText_fields onFileOutput_fields onPlotOutputComplete_fields
        libEffects_no_unregister completion_of_def)

lemma run_slots_steps:
  "filter capture_step (trace (run_slots x env ev ss w)) = filter capture_step (trace w)"
  by (induction ss arbitrary: w) (simp_all add: invoke_steps)

lemma run_slots_no_unregister:
  assumes "\<not> is_prompt ev"
  shows "count_list (trace (run_slots x env ev ss w)) (FileMonitorUnregister h)
           = count_list (trace w) (FileMonitorUnregister h)"
  by (induction ss arbitrary: w) (simp_all add: invoke_no_unregister[OF assms])

lemma deliver_steps:
  "filter capture_step (trace (deliver x env ev w)) = filter capture_step (trace w)"
  by (simp add: deliver_def run_slots_steps)

lemma deliver_no_unregister:
  assumes "\<not> is_prompt ev"
  shows "count_list (trace (deliver x env ev w)) (FileMonitorUnregister h)
           = count_list (trace w) (FileMonitorUnregister h)"
  by (simp add: deliver_def run_slots_no_unregister[OF assms])

lemma fire_steps:
  "filter capture_step (trace (fire x se (PlotOutput p) w)) =
     filter capture_step (trace w) @ [Fire (PlotOutput p)]"
  "filter capture_step (trace (fire x se PlotOutputComplete w)) =
     filter capture_step (trace w) @ [Fire PlotOutputComplete]"
  by (simp_all add: fire_def deliver_steps)

lemma fire_plot_fields:
  "ctx (fire x se (PlotOutput p) w) = ctx w"
  "connections (fire x se (PlotOutput p) w) = connections w"
  "completions (fire x se (PlotOutput p) w) = completions w"
  "count_list (trace (fire x se (PlotOutput p) w)) (FileMonitorUnregister h)
     = count_list (trace w) (FileMonitorUnregister h)"
  by (simp_all add: fire_def deliver_other deliver_no_unregister completions_simps)

lemma fold_fire_plot_fields:
  "ctx (fold (\<lambda>p. fire x se (PlotOutput p)) ps w) = ctx w"
  "connections (fold (\<lambda>p. fire x se (PlotOutput p)) ps w) = connections w"
  "completions (fold (\<lambda>p. fire x se (PlotOutput p)) ps w) = completions w"
  "count_list (trace (fold (\<lambda>p. fire x se (PlotOutput p)) ps w)) (FileMonitorUnregister h)
     = count_list (trace w) (FileMonitorUnregister h)"
  "filter capture_step (trace (fold (\<lambda>p. fire x se (PlotOutput p)) ps w)) =
     filter capture_step (trace w) @ map (\<lambda>p. Fire (PlotOutput p)) ps"
  by (induction ps arbitrary: w) (simp_all add: fire_plot_fields fire_steps)

text \<open>The loops of the capture session fire the signal for the plot paths of the list.\<close>

lemma fold_forward_paths:
  "fold (\<lambda>path v. if isPlotPath x path then fire x se (PlotOutput path) v else v) ps w =
     fold (\<lambda>p. fire x se (PlotOutput p)) (filter (isPlotPath x) ps) w"
  by (induction ps arbitrary: w) simp_all

lemma fold_forward_infos:
  "fold (\<lambda>it v. if isPlotPath x (absolutePath it)
                  then fire x se (PlotOutput (absolutePath it)) v else v) fs w =
     fold (\<lambda>p. fire x se (PlotOutput p)) (filter (isPlotPath x) (map absolutePath fs)) w"
  by (induction fs arbitrary: w) simp_all

lemma onPlotFilesChanged_added:
  "onPlotFilesChanged x se
     (map (\<lambda>p. \<lparr>changeType = FileAdded,
                fileInfo = \<lparr>absolutePath = p, isDirectory = False\<rparr>\<rparr>) ps) w =
   fold (\<lambda>p. fire x se (PlotOutput p)) ps w"
  unfolding onPlotFilesChanged_def
  by (induction ps arbitrary: w) simp_all

lemma removeGraphicsDevice_eq:
  "removeGraphicsDevice x env se plotFolder w =
     fire x se PlotOutputComplete
       (fold (\<lambda>p. fire x se (PlotOutput p)) (filter (isPlotPath x) (snd (io_children env)))
          (w\<lparr>trace := trace w @ [RCall ''dev.off'']
                @ (if isError (io_devOff env) then [LogError] else [])
                @ [Children plotFolder]
                @ (if isError (fst (io_children env)) then [LogError] else [])\<rparr>))"
  by (simp add: removeGraphicsDevice_def Let_def fold_forward_paths record_effect_def LOG_ERROR_def)

lemma onMonitorRegistered_eq:
  "onMonitorRegistered x se h t w =
     fold (\<lambda>p. fire x se (PlotOutput p))
       (filter (isPlotPath x) (map absolutePath (tree_iterate t)))
       (connect_slot OnConsolePrompt (slot_unregisterMonitor h) w)"
  by (simp add: onMonitorRegistered_def Let_def fold_forward_infos)

lemma count_filter_same: "P e \<Longrightarrow> count_list (filter P xs) e = count_list xs e"
  by (induction xs) auto

subsection \<open>Sequences of events handled by the context\<close>





lemma call_handler_console:
  assumes "is_console ev"
  shows "ctx (call_handler x env ev w) = ctx w"
    and "fileContents (call_handler x env ev w) (consoleLog x w) =
           fileContents w (consoleLog x w) @
           (if persisted (env, ev) then console_record x ev else [])"
  using assms
  by (cases ev; cases "io_write env"; cases "console_text ev = []";
      simp add: call_handler_def onConsoleOutput_def onConsoleInput_def onConsoleText_fields
        persisted_def console_record_def fileContents_def)+

lemma call_handlers_console:
  assumes "list_all (\<lambda>e. is_console (snd e)) evs"
  shows "fileContents (call_handlers x evs w) (consoleLog x w) =
           fileContents w (consoleLog x w) @
           concat (map (\<lambda>e. console_record x (snd e)) (filter persisted evs))"
  using assms
proof (induction evs arbitrary: w)
  case Nil
  then show ?case by simp
next
  case (Cons e evs)
  have c: "is_console (snd e)" and rest: "list_all (\<lambda>e. is_console (snd e)) evs"
    using Cons.prems by simp_all
  have same: "consoleLog x (call_handler x (fst e) (snd e) w) = consoleLog x w"
    by (simp add: consoleLog_def call_handler_console(1)[OF c])
  show ?case
    using Cons.IH[OF rest, of "call_handler x (fst e) (snd e) w"]
          call_handler_console(2)[OF c, of x "fst e" w]
    by (simp add: same)
qed

lemma call_handler_no_truncate:
  "filter write_truncates (trace (call_handler x env ev w)) = filter write_truncates (trace w)"
  by (cases ev;
      simp add: call_handler_def onConsolePrompt_def disconnect_fields
        onConsoleOutput_def onConsoleInput_def onConsoleText_fields onFileOutput_fields
        onPlotOutputComplete_fields completion_of_def libEffects_def Let_def
        filter_concat comp_def)

lemma call_handlers_no_truncate:
  "filter write_truncates (trace (call_handlers x evs w)) = filter write_truncates (trace w)"
  by (induction evs arbitrary: w) (simp_all add: call_handler_no_truncate)

subsection \<open>The concrete worlds\<close>

lemma armed_world_fields:
  "ctx armed_world =
     \<lparr>ctx_docId = ''d1'', ctx_chunkId = ''c1'', ctx_consoleConnected = True,
      ctx_plotsConnected = True\<rparr>"
  "connections armed_world =
     [(OnConsolePrompt, slot_onConsolePrompt), (OnConsoleOutput, slot_onConsoleOutput),
      (OnConsoleInput, slot_onConsoleInput), (OnPlotOutput, slot_onFileOutput 2),
      (OnPlotOutputComplete, slot_onPlotOutputComplete), (OnHtmlOutput, slot_onFileOutput 3)]"
  "lastOutputs armed_world = (\<lambda>k. \<lparr>outputType = 0, ordinal = 0\<rparr>)"
  by (simp_all add: armed_world_def connect_def beginPlotCapture_def Let_def
        sample_world_def sample_externals_def io_ok_def newChunkExecContext_def)

lemma draining_world_fields:
  "ctx draining_world =
     \<lparr>ctx_docId = ''d1'', ctx_chunkId = ''c1'', ctx_consoleConnected = False,
      ctx_plotsConnected = True\<rparr>"
  "connections draining_world =
     [(OnConsolePrompt, slot_onConsolePrompt), (OnConsoleOutput, slot_onConsoleOutput),
      (OnConsoleInput, slot_onConsoleInput), (OnPlotOutput, slot_onFileOutput 2),
      (OnPlotOutputComplete, slot_onPlotOutputComplete)]"
  "lastOutputs draining_world = (\<lambda>k. \<lparr>outputType = 0, ordinal = 0\<rparr>)"
  by (simp_all add: draining_world_def armed_world_def deliver_def connect_def
        beginPlotCapture_def Let_def invoke_def onConsolePrompt_def disconnect_def
        slot_onConsolePrompt_def slot_onConsoleOutput_def slot_onConsoleInput_def
        slot_onFileOutput_def slot_onPlotOutputComplete_def
        sample_world_def sample_externals_def io_ok_def newChunkExecContext_def)

section \<open>The claims\<close>

text \<open>
  Claim C1, as the code has it. From an armed context, whichever of the console prompt and the plot
  completion is delivered first fires nothing, the one delivered second fires
  \<open>onChunkExecCompleted\<close> for the document and chunk of the context, and no event delivered
  later fires it again: over any sequence of events the completion is fired once when the
  sequence holds both a prompt and a plot completion, and not at all otherwise.
\<close>

theorem completion_fires_exactly_once:
  assumes "armed w"
  shows "completions (deliver x env1 (ConsolePrompt p) w) = completions w
       \<and> completions (deliver x env2 PlotOutputComplete (deliver x env1 (ConsolePrompt p) w))
           = completions w @ [Fire (ChunkExecCompleted (ctx_docId (ctx w)) (ctx_chunkId (ctx w))
                                      (contextId x))]
       \<and> completions (deliver x env1 PlotOutputComplete w) = completions w
       \<and> completions (deliver x env2 (ConsolePrompt p) (deliver x env1 PlotOutputComplete w))
           = completions w @ [Fire (ChunkExecCompleted (ctx_docId (ctx w)) (ctx_chunkId (ctx w))
                                      (contextId x))]
       \<and> completions (deliver_all x later
            (deliver x env2 PlotOutputComplete (deliver x env1 (ConsolePrompt p) w)))
           = completions w @ [Fire (ChunkExecCompleted (ctx_docId (ctx w)) (ctx_chunkId (ctx w))
                                      (contextId x))]
       \<and> completions (deliver_all x later
            (deliver x env2 (ConsolePrompt p) (deliver x env1 PlotOutputComplete w)))
           = completions w @ [Fire (ChunkExecCompleted (ctx_docId (ctx w)) (ctx_chunkId (ctx w))
                                      (contextId x))]
       \<and> completions (deliver_all x evs w)
           = completions w @
             (if has_prompt evs \<and> has_complete evs
              then [Fire (ChunkExecCompleted (ctx_docId (ctx w)) (ctx_chunkId (ctx w))
                            (contextId x))]
              else [])"
proof -
  note j = armed_joins[OF assms, of x]
  have 1: "completions (deliver x env1 (ConsolePrompt p) w) = completions w"
    using j[of "[(env1, ConsolePrompt p)]"] by simp
  have 2: "completions (deliver x env2 PlotOutputComplete (deliver x env1 (ConsolePrompt p) w))
           = completions w @ [completion_of x w]"
    using j[of "[(env1, ConsolePrompt p), (env2, PlotOutputComplete)]"] by simp
  have 3: "completions (deliver x env1 PlotOutputComplete w) = completions w"
    using j[of "[(env1, PlotOutputComplete)]"] by simp
  have 4: "completions (deliver x env2 (ConsolePrompt p) (deliver x env1 PlotOutputComplete w))
           = completions w @ [completion_of x w]"
    using j[of "[(env1, PlotOutputComplete), (env2, ConsolePrompt p)]"] by simp
  have 5: "completions (deliver_all x later
            (deliver x env2 PlotOutputComplete (deliver x env1 (ConsolePrompt p) w)))
           = completions w @ [completion_of x w]"
    using j[of "(env1, ConsolePrompt p) # (env2, PlotOutputComplete) # later"] by simp
  have 6: "completions (deliver_all x later
            (deliver x env2 (ConsolePrompt p) (deliver x env1 PlotOutputComplete w)))
           = completions w @ [completion_of x w]"
    using j[of "(env1, PlotOutputComplete) # (env2, ConsolePrompt p) # later"] by simp
  show ?thesis
    using 1 2 3 4 5 6 j[of evs] by (simp add: completion_of_def)
qed

theorem completion_fires_exactly_once_witness:
  "armed armed_world
   \<and> completions (deliver sample_externals io_ok (ConsolePrompt ''> '') armed_world) = []
   \<and> completions (deliver sample_externals io_ok PlotOutputComplete
        (deliver sample_externals io_ok (ConsolePrompt ''> '') armed_world))
       = [Fire (ChunkExecCompleted ''d1'' ''c1'' ''ctx0'')]
   \<and> completions (deliver sample_externals io_ok (ConsolePrompt ''> '')
        (deliver sample_externals io_ok PlotOutputComplete armed_world))
       = [Fire (ChunkExecCompleted ''d1'' ''c1'' ''ctx0'')]"
proof -
  have ok: "\<not> isError (io_ensureDirectory io_ok)"
    by (simp add: io_ok_def)
  have a: "armed armed_world"
    unfolding armed_world_def
    by (rule connect_arms) (simp_all add: io_ok_def beginPlotCapture_error)
  have c: "completions armed_world = []"
    unfolding armed_world_def
    by (simp add: connect_fields[OF ok]) (simp add: completions_def sample_world_def)
  have i: "ctx_docId (ctx armed_world) = ''d1''" "ctx_chunkId (ctx armed_world) = ''c1''"
    unfolding armed_world_def
    by (simp_all add: connect_fields[OF ok] sample_world_def newChunkExecContext_def)
  have x: "contextId sample_externals = ''ctx0''"
    by (simp add: sample_externals_def)
  show ?thesis
    using completion_fires_exactly_once [OF a, of sample_externals io_ok "''> ''" io_ok "[]" "[]"] a
    by (simp add: c i x)
qed

text \<open>
  The claim as the spec states it, for every context, fails on the context that \<open>connect\<close>
  leaves when \<open>beginPlotCapture\<close> fails: the plots flag is false and the completion callback
  is connected all the same. The prompt, the first of the two events, fires the
  completion; a plot completion delivered afterwards fires it a second time.
\<close>

theorem completion_fires_twice_after_failed_arming:
  "completions (connect sample_externals (io_ok\<lparr>io_executeString := Failure\<rparr>) sample_world) = []
   \<and> completions (deliver sample_externals io_ok (ConsolePrompt ''> '')
        (connect sample_externals (io_ok\<lparr>io_executeString := Failure\<rparr>) sample_world))
       = [Fire (ChunkExecCompleted ''d1'' ''c1'' ''ctx0'')]
   \<and> completions (deliver sample_externals io_ok PlotOutputComplete
        (deliver sample_externals io_ok (ConsolePrompt ''> '')
          (connect sample_externals (io_ok\<lparr>io_executeString := Failure\<rparr>) sample_world)))
       = [Fire (ChunkExecCompleted ''d1'' ''c1'' ''ctx0''),
          Fire (ChunkExecCompleted ''d1'' ''c1'' ''ctx0'')]"
proof -
  have d: "\<not> isError (io_ensureDirectory (io_ok\<lparr>io_executeString := Failure\<rparr>))"
    by (simp add: io_ok_def)
  have b: "isError (fst (beginPlotCapture sample_externals (io_ok\<lparr>io_executeString := Failure\<rparr>)
                 p sample_world))" for p
    by (simp add: beginPlotCapture_error io_ok_def)
  have s: "completions sample_world = []" "ctx_docId (ctx sample_world) = ''d1''"
    "ctx_chunkId (ctx sample_world) = ''c1''" "contextId sample_externals = ''ctx0''"
    "\<not> ctx_plotsConnected (ctx sample_world)"
    by (simp_all add: completions_def sample_world_def newChunkExecContext_def sample_externals_def)
  show ?thesis
    by (simp add: deliver_complete_completions deliver_prompt_completions deliver_prompt_ctx
          deliver_prompt_conn connect_fields[OF d] b s completion_of_def)
qed

text \<open>
  Claim C2, as the code has it. When moving the artifact to its target fails,
  \<open>onFileOutput\<close> logs the error and returns before the ledger is updated: the last pair of
  the chunk is unchanged, nothing is enqueued, and the next artifact is given the same
  ordinal again (one above the last recorded one).
\<close>

theorem failed_relocation_keeps_ledger:
  assumes "isError (io_move env)"
  shows "lastOutputs (onFileOutput x env file ty w) = lastOutputs w
       \<and> trace (onFileOutput x env file ty w) =
           trace w @ [Move file (chunkOutputFile x (ctx_docId (ctx w)) (ctx_chunkId (ctx w))
                                  (assignedPair ty w)), LogError]
       \<and> ordinal (assignedPair ty w)
           = ordinal (lastChunkOutput (ctx_docId (ctx w)) (ctx_chunkId (ctx w)) w) + 1
       \<and> ordinal (assignedPair ty' (onFileOutput x env file ty w)) = ordinal (assignedPair ty w)
       \<and> ordinal (lastChunkOutput (ctx_docId (ctx w)) (ctx_chunkId (ctx w))
                     (onFileOutput x (env'\<lparr>io_move := Success\<rparr>) file' ty'
                        (onFileOutput x env file ty w)))
           = ordinal (assignedPair ty w)"
  using assms
  by (simp add: onFileOutput_fields assignedPair_def lastChunkOutput_def Let_def)

theorem failed_relocation_keeps_ledger_witness:
  "isError (io_move (io_ok\<lparr>io_move := Failure\<rparr>))
   \<and> ordinal (lastChunkOutput ''d1'' ''c1''
        (onFileOutput sample_externals (io_ok\<lparr>io_move := Failure\<rparr>) ''/tmp/a.png'' 2 sample_world)) = 0
   \<and> ordinal (lastChunkOutput ''d1'' ''c1''
        (onFileOutput sample_externals io_ok ''/tmp/b.png'' 2
          (onFileOutput sample_externals (io_ok\<lparr>io_move := Failure\<rparr>) ''/tmp/a.png'' 2 sample_world))) = 1"
proof -
  have f: "isError (io_move (io_ok\<lparr>io_move := Failure\<rparr>))"
    by simp
  have s: "io_ok\<lparr>io_move := Success\<rparr> = io_ok"
    by (simp add: io_ok_def)
  have i: "ctx_docId (ctx sample_world) = ''d1''" "ctx_chunkId (ctx sample_world) = ''c1''"
    "lastOutputs sample_world (''d1'', ''c1'') = \<lparr>outputType = 0, ordinal = 0\<rparr>"
    by (simp_all add: sample_world_def newChunkExecContext_def)
  show ?thesis
    using failed_relocation_keeps_ledger
            [OF f, of sample_externals "''/tmp/a.png''" 2 sample_world 2 io_ok "''/tmp/b.png''"]
    by (simp add: s i lastChunkOutput_def assignedPair_def)
qed

text \<open>
  The claim as the spec states it fails: after a failed move from an empty ledger entry
  (last ordinal 0) the artifact had been given ordinal 1, the ledger still holds 0, and
  the next artifact is given 1 again, not a larger ordinal.
\<close>

theorem failed_relocation_ordinal_not_consumed:
  "isError (io_move (io_ok\<lparr>io_move := Failure\<rparr>))
   \<and> ordinal (assignedPair 2 sample_world) = 1
   \<and> ordinal (lastChunkOutput ''d1'' ''c1''
        (onFileOutput sample_externals (io_ok\<lparr>io_move := Failure\<rparr>) ''/tmp/a.png'' 2 sample_world)) = 0
   \<and> \<not> (ordinal (assignedPair 2 sample_world)
          \<le> ordinal (lastChunkOutput ''d1'' ''c1''
               (onFileOutput sample_externals (io_ok\<lparr>io_move := Failure\<rparr>) ''/tmp/a.png'' 2
                  sample_world)))
   \<and> \<not> (ordinal (assignedPair 2 sample_world)
          < ordinal (assignedPair 2
               (onFileOutput sample_externals (io_ok\<lparr>io_move := Failure\<rparr>) ''/tmp/a.png'' 2
                  sample_world)))"
  by (simp add: onFileOutput_fields assignedPair_def lastChunkOutput_def Let_def
        sample_world_def newChunkExecContext_def)




text \<open>
  Claim C4. When the directory is there and \<open>beginPlotCapture\<close> fails, \<open>connect\<close> leaves the
  plots flag false, connects the console callbacks and sets the console flag; \<open>connect\<close>
  itself fires no completion, and the next console prompt fires \<open>onChunkExecCompleted\<close>
  once, on its own.
\<close>

theorem plot_arming_failure_completes_on_prompt:
  assumes "\<not> isError (io_ensureDirectory env)"
      and "isError (fst (beginPlotCapture x env
              (chunkOutputPath x (ctx_docId (ctx w)) (ctx_chunkId (ctx w))) w))"
      and "\<not> ctx_plotsConnected (ctx w)"
  shows "\<not> ctx_plotsConnected (ctx (connect x env w))
       \<and> ctx_consoleConnected (ctx (connect x env w))
       \<and> (OnConsolePrompt, slot_onConsolePrompt) \<in> set (connections (connect x env w))
       \<and> (OnConsoleOutput, slot_onConsoleOutput) \<in> set (connections (connect x env w))
       \<and> (OnConsoleInput, slot_onConsoleInput) \<in> set (connections (connect x env w))
       \<and> completions (connect x env w) = completions w
       \<and> completions (deliver x env' (ConsolePrompt p) (connect x env w))
           = completions w @ [Fire (ChunkExecCompleted (ctx_docId (ctx w)) (ctx_chunkId (ctx w))
                                      (contextId x))]
       \<and> \<not> ctx_consoleConnected (ctx (deliver x env' (ConsolePrompt p) (connect x env w)))"
  using assms
  by (simp add: connect_fields deliver_prompt_completions deliver_prompt_ctx completion_of_def)

theorem plot_arming_failure_completes_on_prompt_witness:
  "\<not> isError (io_ensureDirectory (io_ok\<lparr>io_executeString := Failure\<rparr>))
   \<and> isError (fst (beginPlotCapture sample_externals (io_ok\<lparr>io_executeString := Failure\<rparr>)
                 ''/cache/d1/c1'' sample_world))
   \<and> \<not> ctx_plotsConnected (ctx sample_world)
   \<and> \<not> ctx_plotsConnected
         (ctx (connect sample_externals (io_ok\<lparr>io_executeString := Failure\<rparr>) sample_world))
   \<and> completions (deliver sample_externals io_ok (ConsolePrompt ''> '')
        (connect sample_externals (io_ok\<lparr>io_executeString := Failure\<rparr>) sample_world))
       = [Fire (ChunkExecCompleted ''d1'' ''c1'' ''ctx0'')]"
proof -
  have d: "\<not> isError (io_ensureDirectory (io_ok\<lparr>io_executeString := Failure\<rparr>))"
    by (simp add: io_ok_def)
  have p: "chunkOutputPath sample_externals (ctx_docId (ctx sample_world))
             (ctx_chunkId (ctx sample_world)) = ''/cache/d1/c1''"
    by (simp add: sample_externals_def sample_world_def newChunkExecContext_def)
  have b: "isError (fst (beginPlotCapture sample_externals (io_ok\<lparr>io_executeString := Failure\<rparr>)
                 ''/cache/d1/c1'' sample_world))"
    by (simp add: beginPlotCapture_error io_ok_def)
  have n: "\<not> ctx_plotsConnected (ctx sample_world)"
    by (simp add: sample_world_def newChunkExecContext_def)
  have c: "completions sample_world = []" "ctx_docId (ctx sample_world) = ''d1''"
    "ctx_chunkId (ctx sample_world) = ''c1''" "contextId sample_externals = ''ctx0''"
    by (simp_all add: completions_def sample_world_def newChunkExecContext_def sample_externals_def)
  note t = plot_arming_failure_completes_on_prompt
             [OF d b[folded p] n, of io_ok "''> ''"]
  from t have t1: "\<not> ctx_plotsConnected
         (ctx (connect sample_externals (io_ok\<lparr>io_executeString := Failure\<rparr>) sample_world))"
    by (rule conjunct1)
  from t have t2: "completions (deliver sample_externals io_ok (ConsolePrompt ''> '')
        (connect sample_externals (io_ok\<lparr>io_executeString := Failure\<rparr>) sample_world))
       = [Fire (ChunkExecCompleted ''d1'' ''c1'' ''ctx0'')]"
    unfolding c by simp
  from d b n t1 t2 show ?thesis
    by (intro conjI)
qed

text \<open>
  Claim C5. When creating the output directory fails, \<open>connect\<close> stops there: no slot
  is connected, the context (both flags included) is unchanged, and the world differs
  only by the attempted call and the logged error.
\<close>

theorem connect_aborts_without_output_directory:
  assumes "isError (io_ensureDirectory env)"
  shows "ctx (connect x env w) = ctx w
       \<and> connections (connect x env w) = connections w
       \<and> lastOutputs (connect x env w) = lastOutputs w
       \<and> files (connect x env w) = files w
       \<and> trace (connect x env w) =
           trace w @ [EnsureDirectory (chunkOutputPath x (ctx_docId (ctx w)) (ctx_chunkId (ctx w))),
                      LogError]"
  using assms by (simp add: connect_def Let_def)

theorem connect_aborts_without_output_directory_witness:
  "isError (io_ensureDirectory (io_ok\<lparr>io_ensureDirectory := Failure\<rparr>))
   \<and> ctx (connect sample_externals (io_ok\<lparr>io_ensureDirectory := Failure\<rparr>) sample_world)
       = newChunkExecContext ''d1'' ''c1''
   \<and> connections (connect sample_externals (io_ok\<lparr>io_ensureDirectory := Failure\<rparr>) sample_world) = []
   \<and> trace (connect sample_externals (io_ok\<lparr>io_ensureDirectory := Failure\<rparr>) sample_world)
       = [EnsureDirectory ''/cache/d1/c1'', LogError]"
  using connect_aborts_without_output_directory
          [of "io_ok\<lparr>io_ensureDirectory := Failure\<rparr>" sample_externals sample_world]
  by (simp add: io_ok_def sample_world_def sample_externals_def newChunkExecContext_def)

text \<open>
  Claim C6. \<open>onConsoleText\<close> with empty text leaves the world as it is: nothing is
  written and no signal is fired. With text it fires \<open>onChunkConsoleOutput\<close> exactly once,
  after the write, whether the write succeeds or fails (a failure is only logged).
\<close>

theorem onConsoleText_notifies:
  "onConsoleText x env ty [] tr w = w
   \<and> (output \<noteq> [] \<longrightarrow>
        trace (onConsoleText x env ty output tr w) =
          trace w @ [UpdateLastChunkOutput (ctx_docId (ctx w)) (ctx_chunkId (ctx w))
                       (assignedPair (kChunkOutputText x) w),
                     WriteStringToFile (consoleLog x w)
                       (encodeCsvLine x [numberToString x ty, output] @ [CHR 0x0A]) tr]
            @ (if isError (io_write env) then [LogError] else [])
            @ [Fire (ChunkConsoleOutput (ctx_docId (ctx w)) (ctx_chunkId (ctx w)) ty output)]
        \<and> count_list (drop (length (trace w)) (trace (onConsoleText x env ty output tr w)))
             (Fire (ChunkConsoleOutput (ctx_docId (ctx w)) (ctx_chunkId (ctx w)) ty output)) = 1)"
proof -
  have empty: "onConsoleText x env ty [] tr w = w"
    by (simp add: onConsoleText_def)
  show ?thesis
    unfolding empty by (simp add: onConsoleText_fields)
qed

theorem onConsoleText_notifies_witness:
  "''hi'' \<noteq> []
   \<and> trace (onConsoleText sample_externals (io_ok\<lparr>io_write := Failure\<rparr>) 1 ''hi'' False sample_world)
       = [UpdateLastChunkOutput ''d1'' ''c1'' \<lparr>outputType = 1, ordinal = 1\<rparr>,
          WriteStringToFile ''/cache/d1/c1/console.csv'' (''1,hi,'' @ [CHR 0x0A]) False,
          LogError,
          Fire (ChunkConsoleOutput ''d1'' ''c1'' 1 ''hi'')]
   \<and> trace (onConsoleText sample_externals io_ok 1 ''hi'' False sample_world)
       = [UpdateLastChunkOutput ''d1'' ''c1'' \<lparr>outputType = 1, ordinal = 1\<rparr>,
          WriteStringToFile ''/cache/d1/c1/console.csv'' (''1,hi,'' @ [CHR 0x0A]) False,
          Fire (ChunkConsoleOutput ''d1'' ''c1'' 1 ''hi'')]"
  using onConsoleText_notifies
          [of sample_externals "io_ok\<lparr>io_write := Failure\<rparr>" 1 False sample_world "''hi''"]
        onConsoleText_notifies
          [of sample_externals io_ok 1 False sample_world "''hi''"]
  by (simp add: io_ok_def sample_world_def sample_externals_def newChunkExecContext_def
        consoleLog_def assignedPair_def lastChunkOutput_def)

text \<open>
  Claim C7, as the code has it. The console handlers always call \<open>onConsoleText\<close> with
  \<open>truncate = false\<close>: every write, the first of an execution included, is added at the end
  of the console log of the chunk, and no handler truncates it. After a sequence of console events the log
  holds what it held before, followed by the line-records of the events with text whose
  write succeeded, in the order of delivery.
\<close>

theorem console_log_is_appended:
  assumes "list_all (\<lambda>e. is_console (snd e)) evs"
  shows "fileContents (call_handlers x evs w) (consoleLog x w) =
           fileContents w (consoleLog x w) @
           concat (map (\<lambda>e. console_record x (snd e)) (filter persisted evs))
       \<and> filter write_truncates (trace (call_handlers x evs w)) = filter write_truncates (trace w)
       \<and> onConsoleOutput x env ty output w =
           onConsoleText x env
             (if ty = ConsoleOutputNormal then kChunkConsoleOutput x else kChunkConsoleError x)
             output False w
       \<and> onConsoleInput x env input w = onConsoleText x env (kChunkConsoleInput x) input False w"
  using call_handlers_console[OF assms, of x w]
  by (simp add: call_handlers_no_truncate onConsoleOutput_def onConsoleInput_def)

theorem console_log_is_appended_witness:
  "list_all (\<lambda>e. is_console (snd e))
     [(io_ok, ConsoleOutput ConsoleOutputNormal ''hi''),
      (io_ok\<lparr>io_write := Failure\<rparr>, ConsoleInput ''x''),
      (io_ok, ConsoleOutput ConsoleOutputError ''warn'')]
   \<and> fileContents
        (call_handlers sample_externals
           [(io_ok, ConsoleOutput ConsoleOutputNormal ''hi''),
            (io_ok\<lparr>io_write := Failure\<rparr>, ConsoleInput ''x''),
            (io_ok, ConsoleOutput ConsoleOutputError ''warn'')]
           (sample_world\<lparr>files := [''/cache/d1/c1/console.csv'' \<mapsto> ''old'']\<rparr>))
        ''/cache/d1/c1/console.csv''
      = ''old'' @ ''1,hi,'' @ [CHR 0x0A] @ ''2,warn,'' @ [CHR 0x0A]"
proof -
  let ?evs = "[(io_ok, ConsoleOutput ConsoleOutputNormal ''hi''),
      (io_ok\<lparr>io_write := Failure\<rparr>, ConsoleInput ''x''),
      (io_ok, ConsoleOutput ConsoleOutputError ''warn'')]"
  let ?w = "sample_world\<lparr>files := [''/cache/d1/c1/console.csv'' \<mapsto> ''old'']\<rparr>"
  have h: "list_all (\<lambda>e. is_console (snd e)) ?evs"
    by simp
  have l: "consoleLog sample_externals ?w = ''/cache/d1/c1/console.csv''"
    by (simp add: consoleLog_def sample_externals_def sample_world_def newChunkExecContext_def)
  have o: "fileContents ?w ''/cache/d1/c1/console.csv'' = ''old''"
    by (simp add: fileContents_def)
  have k: "filter persisted ?evs =
      [(io_ok, ConsoleOutput ConsoleOutputNormal ''hi''),
       (io_ok, ConsoleOutput ConsoleOutputError ''warn'')]"
    by (simp add: persisted_def io_ok_def)
  have r: "console_record sample_externals (ConsoleOutput ConsoleOutputNormal ''hi'') = ''1,hi,'' @ [CHR 0x0A]"
    "console_record sample_externals (ConsoleOutput ConsoleOutputError ''warn'') = ''2,warn,'' @ [CHR 0x0A]"
    by (simp_all add: console_record_def sample_externals_def)
  from console_log_is_appended [OF h, of sample_externals ?w]
  have "fileContents (call_handlers sample_externals ?evs ?w) ''/cache/d1/c1/console.csv'' =
           ''old'' @ concat (map (\<lambda>e. console_record sample_externals (snd e)) (filter persisted ?evs))"
    unfolding l o by (rule conjunct1)
  then have "fileContents (call_handlers sample_externals ?evs ?w) ''/cache/d1/c1/console.csv''
      = ''old'' @ ''1,hi,'' @ [CHR 0x0A] @ ''2,warn,'' @ [CHR 0x0A]"
    unfolding k by (simp add: r)
  with h show ?thesis
    by (intro conjI)
qed

text \<open>
  The claim as the spec states it fails: when the log already holds text, the first
  console write of an execution is made with \<open>truncate = false\<close> and the old text stays in
  front of the new line-record.
\<close>

theorem console_log_not_truncated:
  "trace (onConsoleOutput sample_externals io_ok ConsoleOutputNormal ''hi''
            (sample_world\<lparr>files := [''/cache/d1/c1/console.csv'' \<mapsto> ''old'']\<rparr>))
     = [UpdateLastChunkOutput ''d1'' ''c1'' \<lparr>outputType = 1, ordinal = 1\<rparr>,
        WriteStringToFile ''/cache/d1/c1/console.csv'' (''1,hi,'' @ [CHR 0x0A]) False,
        Fire (ChunkConsoleOutput ''d1'' ''c1'' 1 ''hi'')]
   \<and> fileContents
        (onConsoleOutput sample_externals io_ok ConsoleOutputNormal ''hi''
           (sample_world\<lparr>files := [''/cache/d1/c1/console.csv'' \<mapsto> ''old'']\<rparr>))
        ''/cache/d1/c1/console.csv''
      = ''old'' @ ''1,hi,'' @ [CHR 0x0A]
   \<and> \<not> (fileContents
          (onConsoleOutput sample_externals io_ok ConsoleOutputNormal ''hi''
             (sample_world\<lparr>files := [''/cache/d1/c1/console.csv'' \<mapsto> ''old'']\<rparr>))
          ''/cache/d1/c1/console.csv''
        = ''1,hi,'' @ [CHR 0x0A])"
  by (simp add: onConsoleOutput_def onConsoleText_fields consoleLog_def fileContents_def
        sample_externals_def sample_world_def newChunkExecContext_def io_ok_def
        assignedPair_def lastChunkOutput_def)

text \<open>
  Claim C8. Tearing the capture down, from the unregistration of the monitor or from
  its registration error (which logs the error first), does these steps in this order:
  the \<open>dev.off\<close> call, the listing of the plot folder, one firing of \<open>onPlotOutput\<close> for
  every listed path that is a plot path, each running the connected slots before the
  next, and last one firing of \<open>onPlotOutputComplete\<close>. Whatever the slots do, the steps
  of the capture session in the trace are these, and the completion signal is fired
  exactly once.
\<close>

theorem teardown_order:
  "onMonitorUnregistered x env se plotFolder h w =
     fire x se PlotOutputComplete
       (fold (\<lambda>p. fire x se (PlotOutput p)) (filter (isPlotPath x) (snd (io_children env)))
          (w\<lparr>trace := trace w @ [RCall ''dev.off'']
                @ (if isError (io_devOff env) then [LogError] else [])
                @ [Children plotFolder]
                @ (if isError (fst (io_children env)) then [LogError] else [])\<rparr>))
   \<and> onMonitorRegError x env se plotFolder w =
     fire x se PlotOutputComplete
       (fold (\<lambda>p. fire x se (PlotOutput p)) (filter (isPlotPath x) (snd (io_children env)))
          (w\<lparr>trace := trace w @ [LogError] @ [RCall ''dev.off'']
                @ (if isError (io_devOff env) then [LogError] else [])
                @ [Children plotFolder]
                @ (if isError (fst (io_children env)) then [LogError] else [])\<rparr>))
   \<and> fire x se ev w' = deliver x (se ev) ev (w'\<lparr>trace := trace w' @ [Fire ev]\<rparr>)
   \<and> filter capture_step (trace (onMonitorUnregistered x env se plotFolder h w)) =
       filter capture_step (trace w) @ [RCall ''dev.off'', Children plotFolder]
         @ map (\<lambda>p. Fire (PlotOutput p)) (filter (isPlotPath x) (snd (io_children env)))
         @ [Fire PlotOutputComplete]
   \<and> filter capture_step (trace (onMonitorRegError x env se plotFolder w)) =
       filter capture_step (trace w) @ [RCall ''dev.off'', Children plotFolder]
         @ map (\<lambda>p. Fire (PlotOutput p)) (filter (isPlotPath x) (snd (io_children env)))
         @ [Fire PlotOutputComplete]
   \<and> count_list (trace (onMonitorUnregistered x env se plotFolder h w)) (Fire PlotOutputComplete)
       = Suc (count_list (trace w) (Fire PlotOutputComplete))
   \<and> count_list (trace (onMonitorRegError x env se plotFolder w)) (Fire PlotOutputComplete)
       = Suc (count_list (trace w) (Fire PlotOutputComplete))"
proof -
  have none: "count_list (map (\<lambda>p. Fire (PlotOutput p)) ps) (Fire PlotOutputComplete) = 0"
    for ps :: "FilePath list"
    by (induction ps) simp_all
  have u: "onMonitorUnregistered x env se plotFolder h w =
     fire x se PlotOutputComplete
       (fold (\<lambda>p. fire x se (PlotOutput p)) (filter (isPlotPath x) (snd (io_children env)))
          (w\<lparr>trace := trace w @ [RCall ''dev.off'']
                @ (if isError (io_devOff env) then [LogError] else [])
                @ [Children plotFolder]
                @ (if isError (fst (io_children env)) then [LogError] else [])\<rparr>))"
    by (simp add: onMonitorUnregistered_def removeGraphicsDevice_eq)
  have e: "onMonitorRegError x env se plotFolder w =
     fire x se PlotOutputComplete
       (fold (\<lambda>p. fire x se (PlotOutput p)) (filter (isPlotPath x) (snd (io_children env)))
          (w\<lparr>trace := trace w @ [LogError] @ [RCall ''dev.off'']
                @ (if isError (io_devOff env) then [LogError] else [])
                @ [Children plotFolder]
                @ (if isError (fst (io_children env)) then [LogError] else [])\<rparr>))"
    by (simp add: onMonitorRegError_def removeGraphicsDevice_eq LOG_ERROR_def record_effect_def)
  have f: "fire x se ev w' = deliver x (se ev) ev (w'\<lparr>trace := trace w' @ [Fire ev]\<rparr>)"
    by (simp add: fire_def record_effect_def)
  have su: "filter capture_step (trace (onMonitorUnregistered x env se plotFolder h w)) =
       filter capture_step (trace w) @ [RCall ''dev.off'', Children plotFolder]
         @ map (\<lambda>p. Fire (PlotOutput p)) (filter (isPlotPath x) (snd (io_children env)))
         @ [Fire PlotOutputComplete]"
    unfolding u by (simp add: fire_steps fold_fire_plot_fields)
  have se: "filter capture_step (trace (onMonitorRegError x env se plotFolder w)) =
       filter capture_step (trace w) @ [RCall ''dev.off'', Children plotFolder]
         @ map (\<lambda>p. Fire (PlotOutput p)) (filter (isPlotPath x) (snd (io_children env)))
         @ [Fire PlotOutputComplete]"
    unfolding e by (simp add: fire_steps fold_fire_plot_fields)
  have c: "count_list tr (Fire PlotOutputComplete)
             = count_list (filter capture_step tr) (Fire PlotOutputComplete)"
    for tr :: "'a word effect list"
    by (simp add: count_filter_same)
  have cu: "count_list (trace (onMonitorUnregistered x env se plotFolder h w)) (Fire PlotOutputComplete)
       = Suc (count_list (trace w) (Fire PlotOutputComplete))"
    unfolding c[of "trace (onMonitorUnregistered x env se plotFolder h w)"] c[of "trace w"] su
    by (simp add: none)
  have ce: "count_list (trace (onMonitorRegError x env se plotFolder w)) (Fire PlotOutputComplete)
       = Suc (count_list (trace w) (Fire PlotOutputComplete))"
    unfolding c[of "trace (onMonitorRegError x env se plotFolder w)"] c[of "trace w"] se
    by (simp add: none)
  from u e f su se cu ce show ?thesis
    by (intro conjI)
qed

text \<open>
  On the armed context after the console prompt, with one plot and one other file in
  the folder: the plot is moved and stored in the ledger by the slot of the context
  between the two signals, and the completion of the chunk follows the plot completion.
\<close>

theorem teardown_order_witness:
  "trace (onMonitorUnregistered sample_externals
            (io_ok\<lparr>io_children :=
               (Success, [''/cache/d1/c1/_rs_chunk_plot_001.png'', ''/cache/d1/c1/notes.txt''])\<rparr>)
            (\<lambda>ev. io_ok) ''/cache/d1/c1'' 7 draining_world)
   = trace draining_world @
     [RCall ''dev.off'', Children ''/cache/d1/c1'',
      Fire (PlotOutput ''/cache/d1/c1/_rs_chunk_plot_001.png''),
      Move ''/cache/d1/c1/_rs_chunk_plot_001.png'' ''/cache/d1/c1/i.png'',
      EnqueueChunkOutput ''d1'' ''c1'' 2 ''/cache/d1/c1/i.png'',
      UpdateLastChunkOutput ''d1'' ''c1'' \<lparr>outputType = 2, ordinal = 1\<rparr>,
      Fire PlotOutputComplete,
      Fire (ChunkExecCompleted ''d1'' ''c1'' ''ctx0'')]"
proof -
  let ?env = "io_ok\<lparr>io_children :=
               (Success, [''/cache/d1/c1/_rs_chunk_plot_001.png'', ''/cache/d1/c1/notes.txt''])\<rparr>"
  have p: "filter (isPlotPath sample_externals) (snd (io_children ?env))
             = [''/cache/d1/c1/_rs_chunk_plot_001.png'']"
    by (simp add: isPlotPath_def sample_externals_def kPlotPrefix_def)
  have ok: "\<not> isError (io_devOff ?env)" "\<not> isError (fst (io_children ?env))"
    by (simp_all add: io_ok_def)
  from teardown_order [of sample_externals ?env "\<lambda>ev. io_ok" "''/cache/d1/c1''" 7 draining_world]
  have "onMonitorUnregistered sample_externals ?env (\<lambda>ev. io_ok) ''/cache/d1/c1'' 7 draining_world =
     fire sample_externals (\<lambda>ev. io_ok) PlotOutputComplete
       (fold (\<lambda>p. fire sample_externals (\<lambda>ev. io_ok) (PlotOutput p))
          [''/cache/d1/c1/_rs_chunk_plot_001.png'']
          (draining_world\<lparr>trace := trace draining_world @ [RCall ''dev.off'']
                @ [] @ [Children ''/cache/d1/c1''] @ []\<rparr>))"
    unfolding p using ok by simp
  then show ?thesis
    by (simp add: fire_def deliver_def draining_world_fields invoke_def
          onFileOutput_def onPlotOutputComplete_def lastChunkOutput_def
          updateLastChunkOutput_def enqueueChunkOutput_def Let_def
          slot_onFileOutput_def slot_onPlotOutputComplete_def
          record_effect_def LOG_ERROR_def notify_def disconnect_slot_def
          io_ok_def sample_externals_def)
qed

text \<open>
  Claim C9. \<open>onMonitorRegistered\<close> connects \<open>unregisterMonitor\<close>, bound to the handle, to
  the console prompt, and fires \<open>onPlotOutput\<close> for every plot path of the initial listing,
  in the order of the listing, each firing running the connected slots: exactly what
  \<open>onPlotFilesChanged\<close> does for the same files reported as added. The next prompt calls
  \<open>unregisterMonitor\<close>: the monitor is unregistered once and the callback is no longer
  connected, so a further prompt does not unregister again.
\<close>

theorem monitor_registered_forwards_and_arms:
  "onMonitorRegistered x se h t w =
     fold (\<lambda>p. fire x se (PlotOutput p))
       (filter (isPlotPath x) (map absolutePath (tree_iterate t)))
       (w\<lparr>connections := connections w
             @ [(OnConsolePrompt, Bind Plots_unregisterMonitor [Arg1, BoundHandle h])]\<rparr>)
   \<and> onMonitorRegistered x se h t w =
     onPlotFilesChanged x se
       (map (\<lambda>p. \<lparr>changeType = FileAdded, fileInfo = \<lparr>absolutePath = p, isDirectory = False\<rparr>\<rparr>)
          (filter (isPlotPath x) (map absolutePath (tree_iterate t))))
       (w\<lparr>connections := connections w
             @ [(OnConsolePrompt, Bind Plots_unregisterMonitor [Arg1, BoundHandle h])]\<rparr>)
   \<and> fire x se ev w' = deliver x (se ev) ev (w'\<lparr>trace := trace w' @ [Fire ev]\<rparr>)
   \<and> filter capture_step (trace (onMonitorRegistered x se h t w)) =
       filter capture_step (trace w)
         @ map (\<lambda>p. Fire (PlotOutput p)) (filter (isPlotPath x) (map absolutePath (tree_iterate t)))
   \<and> connections (onMonitorRegistered x se h t w) =
       connections w @ [(OnConsolePrompt, Bind Plots_unregisterMonitor [Arg1, BoundHandle h])]
   \<and> invoke x env (Bind Plots_unregisterMonitor [Arg1, BoundHandle h]) (ConsolePrompt p) w'
       = unregisterMonitor p h w'
   \<and> count_list (trace (deliver x env (ConsolePrompt p) (onMonitorRegistered x se h t w)))
        (FileMonitorUnregister h)
       = Suc (count_list (trace w) (FileMonitorUnregister h))
   \<and> (OnConsolePrompt, Bind Plots_unregisterMonitor [Arg1, BoundHandle h])
        \<notin> set (connections (deliver x env (ConsolePrompt p) (onMonitorRegistered x se h t w)))
   \<and> count_list (trace (deliver x env' (ConsolePrompt p')
                         (deliver x env (ConsolePrompt p) (onMonitorRegistered x se h t w))))
        (FileMonitorUnregister h)
       = Suc (count_list (trace w) (FileMonitorUnregister h))"
proof -
  let ?ps = "filter (isPlotPath x) (map absolutePath (tree_iterate t))"
  have cs: "connect_slot OnConsolePrompt (slot_unregisterMonitor h) w =
        w\<lparr>connections := connections w
             @ [(OnConsolePrompt, Bind Plots_unregisterMonitor [Arg1, BoundHandle h])]\<rparr>"
    by (simp add: connect_slot_def slot_unregisterMonitor_def)
  have r: "onMonitorRegistered x se h t w =
     fold (\<lambda>p. fire x se (PlotOutput p)) ?ps
       (w\<lparr>connections := connections w
             @ [(OnConsolePrompt, Bind Plots_unregisterMonitor [Arg1, BoundHandle h])]\<rparr>)"
    by (simp add: onMonitorRegistered_eq cs)
  have a: "onMonitorRegistered x se h t w =
     onPlotFilesChanged x se
       (map (\<lambda>p. \<lparr>changeType = FileAdded, fileInfo = \<lparr>absolutePath = p, isDirectory = False\<rparr>\<rparr>) ?ps)
       (w\<lparr>connections := connections w
             @ [(OnConsolePrompt, Bind Plots_unregisterMonitor [Arg1, BoundHandle h])]\<rparr>)"
    unfolding r by (simp only: onPlotFilesChanged_added)
  have f: "fire x se ev w' = deliver x (se ev) ev (w'\<lparr>trace := trace w' @ [Fire ev]\<rparr>)"
    by (simp add: fire_def record_effect_def)
  have st: "filter capture_step (trace (onMonitorRegistered x se h t w)) =
       filter capture_step (trace w) @ map (\<lambda>p. Fire (PlotOutput p)) ?ps"
    by (simp add: onMonitorRegistered_eq fold_fire_plot_fields)
  have cn: "connections (onMonitorRegistered x se h t w) =
       connections w @ [(OnConsolePrompt, Bind Plots_unregisterMonitor [Arg1, BoundHandle h])]"
    by (simp add: onMonitorRegistered_eq fold_fire_plot_fields slot_unregisterMonitor_def)
  have ct: "count_list (trace (onMonitorRegistered x se h t w)) (FileMonitorUnregister h)
              = count_list (trace w) (FileMonitorUnregister h)"
    by (simp add: onMonitorRegistered_eq fold_fire_plot_fields)
  have inv: "invoke x env (Bind Plots_unregisterMonitor [Arg1, BoundHandle h]) (ConsolePrompt p) w'
       = unregisterMonitor p h w'"
    by (simp add: invoke_def slot_onConsolePrompt_def)
  have gone: "(OnConsolePrompt, slot_unregisterMonitor h)
        \<notin> set (connections (deliver x env (ConsolePrompt p) (onMonitorRegistered x se h t w)))"
    by (rule deliver_prompt_conn)
  have once: "count_list (trace (deliver x env (ConsolePrompt p) (onMonitorRegistered x se h t w)))
        (FileMonitorUnregister h) = Suc (count_list (trace w) (FileMonitorUnregister h))"
    by (simp add: deliver_prompt_count cn ct slot_unregisterMonitor_def)
  have again: "count_list (trace (deliver x env' (ConsolePrompt p')
                         (deliver x env (ConsolePrompt p) (onMonitorRegistered x se h t w))))
        (FileMonitorUnregister h) = Suc (count_list (trace w) (FileMonitorUnregister h))"
    using gone by (simp add: deliver_prompt_count[of x env' p'] once)
  from r a f st cn inv once gone[unfolded slot_unregisterMonitor_def] again show ?thesis
    by (intro conjI)
qed

text \<open>
  On the armed context, with a listing that holds the folder, one plot and one other
  file: the plot is moved and stored in the ledger by the slot of the context as soon as
  the signal is fired, and the next prompt unregisters the monitor.
\<close>

theorem monitor_registered_forwards_and_arms_witness:
  "trace (onMonitorRegistered sample_externals (\<lambda>ev. io_ok) 7
            [TreeNode \<lparr>absolutePath = ''/cache/d1/c1'', isDirectory = True\<rparr>
               [TreeNode \<lparr>absolutePath = ''/cache/d1/c1/_rs_chunk_plot_001.png'',
                          isDirectory = False\<rparr> [],
                TreeNode \<lparr>absolutePath = ''/cache/d1/c1/notes.txt'', isDirectory = False\<rparr> []]]
            armed_world)
   = trace armed_world @
     [Fire (PlotOutput ''/cache/d1/c1/_rs_chunk_plot_001.png''),
      Move ''/cache/d1/c1/_rs_chunk_plot_001.png'' ''/cache/d1/c1/i.png'',
      EnqueueChunkOutput ''d1'' ''c1'' 2 ''/cache/d1/c1/i.png'',
      UpdateLastChunkOutput ''d1'' ''c1'' \<lparr>outputType = 2, ordinal = 1\<rparr>]
   \<and> count_list (trace (deliver sample_externals io_ok (ConsolePrompt ''> '')
        (onMonitorRegistered sample_externals (\<lambda>ev. io_ok) 7
            [TreeNode \<lparr>absolutePath = ''/cache/d1/c1'', isDirectory = True\<rparr>
               [TreeNode \<lparr>absolutePath = ''/cache/d1/c1/_rs_chunk_plot_001.png'',
                          isDirectory = False\<rparr> [],
                TreeNode \<lparr>absolutePath = ''/cache/d1/c1/notes.txt'', isDirectory = False\<rparr> []]]
            armed_world))) (FileMonitorUnregister 7)
     = Suc (count_list (trace armed_world) (FileMonitorUnregister 7))"
proof -
  let ?t = "[TreeNode \<lparr>absolutePath = ''/cache/d1/c1'', isDirectory = True\<rparr>
               [TreeNode \<lparr>absolutePath = ''/cache/d1/c1/_rs_chunk_plot_001.png'',
                          isDirectory = False\<rparr> [],
                TreeNode \<lparr>absolutePath = ''/cache/d1/c1/notes.txt'', isDirectory = False\<rparr> []]]"
  note t = monitor_registered_forwards_and_arms
             [of sample_externals "\<lambda>ev. io_ok" 7 ?t armed_world _ _ io_ok "''> ''"]
  have p: "filter (isPlotPath sample_externals) (map absolutePath (tree_iterate ?t))
             = [''/cache/d1/c1/_rs_chunk_plot_001.png'']"
    by (simp add: isPlotPath_def sample_externals_def kPlotPrefix_def tree_iterate_def)
  from t have "onMonitorRegistered sample_externals (\<lambda>ev. io_ok) 7 ?t armed_world =
     fold (\<lambda>p. fire sample_externals (\<lambda>ev. io_ok) (PlotOutput p))
       [''/cache/d1/c1/_rs_chunk_plot_001.png'']
       (armed_world\<lparr>connections := connections armed_world
             @ [(OnConsolePrompt, Bind Plots_unregisterMonitor [Arg1, BoundHandle 7])]\<rparr>)"
    unfolding p by (rule conjunct1)
  then have a: "trace (onMonitorRegistered sample_externals (\<lambda>ev. io_ok) 7 ?t armed_world)
   = trace armed_world @
     [Fire (PlotOutput ''/cache/d1/c1/_rs_chunk_plot_001.png''),
      Move ''/cache/d1/c1/_rs_chunk_plot_001.png'' ''/cache/d1/c1/i.png'',
      EnqueueChunkOutput ''d1'' ''c1'' 2 ''/cache/d1/c1/i.png'',
      UpdateLastChunkOutput ''d1'' ''c1'' \<lparr>outputType = 2, ordinal = 1\<rparr>]"
    by (simp add: fire_def deliver_def armed_world_fields invoke_def
          onFileOutput_def lastChunkOutput_def
          updateLastChunkOutput_def enqueueChunkOutput_def Let_def
          slot_onFileOutput_def record_effect_def LOG_ERROR_def
          io_ok_def sample_externals_def)
  from t have b: "count_list (trace (deliver sample_externals io_ok (ConsolePrompt ''> '')
        (onMonitorRegistered sample_externals (\<lambda>ev. io_ok) 7 ?t armed_world)))
          (FileMonitorUnregister 7)
     = Suc (count_list (trace armed_world) (FileMonitorUnregister 7))"
    by blast
  from a b show ?thesis
    by (intro conjI)
qed

text \<open>
  Claim C10. While the console-connected flag is false (a new context, an aborted
  \<open>connect\<close>, a context already disconnected), the prompt handler does nothing: it returns
  the world as it is, so neither flag changes and nothing is fired. Delivering a prompt
  through the signal, whatever else is connected to it, leaves the context unchanged and
  fires no completion.
\<close>

theorem prompt_when_not_connected_is_noop:
  assumes "\<not> ctx_consoleConnected (ctx w)"
  shows "onConsolePrompt x prompt w = w
       \<and> invoke x env slot_onConsolePrompt (ConsolePrompt prompt) w = w
       \<and> ctx (deliver x env (ConsolePrompt prompt) w) = ctx w
       \<and> completions (deliver x env (ConsolePrompt prompt) w) = completions w
       \<and> \<not> ctx_consoleConnected (newChunkExecContext docId chunkId)
       \<and> \<not> ctx_consoleConnected (ctx (disconnect x w'))
       \<and> (isError (io_ensureDirectory env) \<longrightarrow>
            \<not> ctx_consoleConnected (ctx (connect x env w)))"
proof -
  have same: "(ctx w)\<lparr>ctx_consoleConnected := False\<rparr> = ctx w"
    using assms by simp
  have "onConsolePrompt x prompt w = w"
    using assms by (simp add: onConsolePrompt_def)
  moreover have "invoke x env slot_onConsolePrompt (ConsolePrompt prompt) w = w"
    using assms by (simp add: invoke_def onConsolePrompt_def)
  moreover have "ctx (deliver x env (ConsolePrompt prompt) w) = ctx w"
    by (simp add: deliver_prompt_ctx same)
  moreover have "completions (deliver x env (ConsolePrompt prompt) w) = completions w"
    using assms by (simp add: deliver_prompt_completions)
  moreover have "\<not> ctx_consoleConnected (newChunkExecContext docId chunkId)"
    by (simp add: newChunkExecContext_def)
  moreover have "\<not> ctx_consoleConnected (ctx (disconnect x w'))"
    by (simp add: disconnect_fields)
  moreover have "isError (io_ensureDirectory env) \<longrightarrow>
            \<not> ctx_consoleConnected (ctx (connect x env w))"
    using assms by (simp add: connect_def Let_def)
  ultimately show ?thesis by blast
qed

theorem prompt_when_not_connected_is_noop_witness:
  "\<not> ctx_consoleConnected (ctx sample_world)
   \<and> onConsolePrompt sample_externals ''> '' sample_world = sample_world
   \<and> completions (deliver sample_externals io_ok (ConsolePrompt ''> '') sample_world) = []
   \<and> isError (io_ensureDirectory (io_ok\<lparr>io_ensureDirectory := Failure\<rparr>))
   \<and> \<not> ctx_consoleConnected
         (ctx (connect sample_externals (io_ok\<lparr>io_ensureDirectory := Failure\<rparr>) sample_world))"
  using prompt_when_not_connected_is_noop [of sample_world sample_externals "''> ''" io_ok]
        prompt_when_not_connected_is_noop
          [of sample_world sample_externals "''> ''" "io_ok\<lparr>io_ensureDirectory := Failure\<rparr>"]
  by (simp add: sample_world_def newChunkExecContext_def completions_def)

end
